theory Spec2Isabelle
  imports Complex_Main
begin

section \<open>JavaScript values used by \<open>spotifydj.ts\<close>\<close>

text \<open>
  A JavaScript \<open>number\<close> is an IEEE 754 double. It is modelled by the real it denotes;
  \<open>NaN\<close> and the infinities are outside the model. An optional argument is an
  \<open>option\<close>, \<open>undefined\<close> being \<open>None\<close>. The clock \<open>Date.now()\<close> is an input: the
  parameter \<open>now\<close> of \<open>calculate\<close>, and a field of the environment of a render call.
\<close>

type_synonym number = real

subsection \<open>Rounding to double precision\<close>

text \<open>
  An arithmetic operation of the source returns the double nearest to the exact result,
  a tie going to the even significand. \<open>pow2 k\<close> is \<open>2\<^sup>k\<close>; \<open>rne\<close> rounds to the nearest
  integer, ties to even; \<open>binade x\<close> is the exponent of \<open>x\<close>, not below that of the
  subnormal numbers; the doubles around \<open>x\<close> are the multiples of \<open>pow2 (binade x - 52)\<close>,
  and \<open>rnd x\<close> is the nearest of them. (A result beyond the largest double would be an
  infinity in JavaScript; here it is rounded to 53 bits like any other.)
\<close>

definition pow2 :: "int \<Rightarrow> real" where
  "pow2 k = (if 0 \<le> k then 2 ^ nat k else 1 / 2 ^ nat (- k))"

definition rne :: "real \<Rightarrow> int" where
  "rne x = (let f = \<lfloor>x\<rfloor>; d = x - of_int f
            in if d < 1 / 2 then f else if 1 / 2 < d then f + 1
               else if even f then f else f + 1)"

definition binade :: "real \<Rightarrow> int" where
  "binade x = max \<lfloor>log 2 \<bar>x\<bar>\<rfloor> (- 1022)"

definition rnd :: "real \<Rightarrow> number" where
  "rnd x = (if x = 0 then 0
            else of_int (rne (x / pow2 (binade x - 52))) * pow2 (binade x - 52))"

text \<open>
  The operators \<open>+\<close>, \<open>-\<close>, \<open>*\<close> and \<open>/\<close> on numbers. (A division by zero gives an
  infinity or \<open>NaN\<close> in JavaScript and lies outside the model.)
\<close>

definition fadd :: "number \<Rightarrow> number \<Rightarrow> number" where
  "fadd a b = rnd (a + b)"

definition fsub :: "number \<Rightarrow> number \<Rightarrow> number" where
  "fsub a b = rnd (a - b)"

definition fmul :: "number \<Rightarrow> number \<Rightarrow> number" where
  "fmul a b = rnd (a * b)"

definition fdiv :: "number \<Rightarrow> number \<Rightarrow> number" where
  "fdiv a b = rnd (a / b)"

subsection \<open>Remainder and truthiness\<close>

text \<open>
  The remainder operator \<open>a % b\<close>: the quotient is truncated towards zero, so the result has
  the sign of the dividend. The remainder of two doubles is a double: the operation is
  exact and needs no rounding. (For \<open>b = 0\<close> JavaScript yields \<open>NaN\<close>; the source only
  divides by the constant 32.)
\<close>

definition js_trunc :: "number \<Rightarrow> int" where
  "js_trunc x = (if x < 0 then \<lceil>x\<rceil> else \<lfloor>x\<rfloor>)"

definition js_rem :: "number \<Rightarrow> number \<Rightarrow> number" where
  "js_rem a b = a - b * of_int (js_trunc (a / b))"

text \<open>Truthiness of an optional number: \<open>undefined\<close> and \<open>0\<close> are falsy.\<close>

definition truthy :: "number option \<Rightarrow> bool" where
  "truthy v = (case v of None \<Rightarrow> False | Some x \<Rightarrow> x \<noteq> 0)"

section \<open>\<open>PhraseCounter.calculate\<close>\<close>

record PhraseInfo =
  beatsRemaining :: number
  timeRemainingSeconds :: number
  phraseCount :: number

text \<open>
  The parameters follow the source: \<open>bpm\<close>, \<open>progressMs\<close>, \<open>timestamp\<close>, the optional
  \<open>timeSignature\<close>, and \<open>isPlaying\<close> whose default value is \<open>true\<close>. Every arithmetic
  operation rounds, as in the source.
\<close>

definition calculate ::
  "number \<Rightarrow> number \<Rightarrow> number \<Rightarrow> number \<Rightarrow> number option \<Rightarrow> bool option \<Rightarrow> PhraseInfo" where
  "calculate now bpm progressMs timestamp timeSignature isPlayingArg =
    (let isPlaying = (case isPlayingArg of None \<Rightarrow> True | Some b \<Rightarrow> b) in
     if bpm \<le> 0 then
       \<lparr>beatsRemaining = 32, timeRemainingSeconds = 0, phraseCount = 1\<rparr>
     else
       let safeTimestamp = (if timestamp > 0 then timestamp else now);
           elapsed = (if isPlaying then fsub now safeTimestamp else 0);
           currentProgressMs = fadd progressMs elapsed;
           beatDurationMs = fdiv 60000 bpm;
           totalBeats = fdiv currentProgressMs beatDurationMs
       in
       if truthy timeSignature \<and> timeSignature \<noteq> Some 4 then
         \<lparr>beatsRemaining = 0, timeRemainingSeconds = 0, phraseCount = 0\<rparr>
       else
         let beatsInPhrase = 32;
             positionInPhrase = js_rem totalBeats beatsInPhrase;
             beatsRemaining = fsub beatsInPhrase positionInPhrase;
             timeRemainingSeconds = fdiv (fmul beatsRemaining beatDurationMs) 1000;
             phraseCount = fadd (of_int \<lfloor>positionInPhrase\<rfloor>) 1
         in \<lparr>beatsRemaining = beatsRemaining,
             timeRemainingSeconds = timeRemainingSeconds,
             phraseCount = phraseCount\<rparr>)"

section \<open>Strings\<close>

text \<open>
  A JavaScript string is a sequence of UTF-16 code units; \<open>length\<close>, \<open>substring\<close> and
  \<open>slice\<close> count code units. \<open>js\<close> embeds an ASCII literal; a character outside ASCII is
  written as its code units.
\<close>

type_synonym jsstring = "nat list"

definition js :: "string \<Rightarrow> jsstring" where
  "js s = map of_char s"

definition ESC :: jsstring where
  "ESC = [27]"

text \<open>A non-negative integer inside a template literal prints in decimal.\<close>

function decimal :: "nat \<Rightarrow> jsstring" where
  "decimal n = (if n < 10 then [48 + n] else decimal (n div 10) @ [48 + n mod 10])"
  by pat_completeness auto
termination
  by (relation "measure (\<lambda>n. n)") auto

declare decimal.simps [simp del]

section \<open>\<open>TerminalRenderer\<close>: the frame cache and \<open>writeFrame\<close>\<close>

definition CLEAR_TO_END :: jsstring where
  "CLEAR_TO_END = ESC @ js ''[0K''"

record TerminalRenderer =
  previousFrame :: "jsstring list"

text \<open>The field initialiser \<open>previousFrame = []\<close> of a new renderer.\<close>

definition newTerminalRenderer :: TerminalRenderer where
  "newTerminalRenderer = \<lparr>previousFrame = []\<rparr>"

definition resetFrameCache :: "TerminalRenderer \<Rightarrow> TerminalRenderer" where
  "resetFrameCache r = r\<lparr>previousFrame := []\<rparr>"

text \<open>
  \<open>process.stdout.rows || 24\<close> and \<open>process.stdout.columns || 80\<close>: the stream's size is
  \<open>undefined\<close> when it is not a terminal, and \<open>0\<close> is falsy.
\<close>

definition orDefault :: "nat option \<Rightarrow> nat \<Rightarrow> nat" where
  "orDefault v d = (case v of None \<Rightarrow> d | Some n \<Rightarrow> if n = 0 then d else n)"

text \<open>\<open>xs[i] ?? ''\<close>: reading past the end of an array gives \<open>undefined\<close>.\<close>

definition rowAt :: "jsstring list \<Rightarrow> nat \<Rightarrow> jsstring" where
  "rowAt xs i = (if i < length xs then xs ! i else [])"

text \<open>The cursor-home sequence and the write of one row: move to the row, content, clear.\<close>

definition cursorHome :: jsstring where
  "cursorHome = ESC @ js ''[H''"

definition rowWrite :: "nat \<Rightarrow> jsstring \<Rightarrow> jsstring" where
  "rowWrite i next = ESC @ js ''['' @ decimal (i + 1) @ js '';1H'' @ next @ CLEAR_TO_END"

text \<open>The loop \<open>for (let i = 0; i < maxRows; i++)\<close>, with the buffer it appends to.\<close>

function writeFrame_loop ::
  "nat \<Rightarrow> nat \<Rightarrow> jsstring list \<Rightarrow> jsstring list \<Rightarrow> jsstring list \<Rightarrow> jsstring list" where
  "writeFrame_loop i maxRows clippedLines prevFrame buffer =
    (if i < maxRows then
       let next = rowAt clippedLines i;
           prev = rowAt prevFrame i
       in writeFrame_loop (i + 1) maxRows clippedLines prevFrame
            (if next \<noteq> prev then buffer @ [rowWrite i next] else buffer)
     else buffer)"
  by pat_completeness auto
termination
  by (relation "measure (\<lambda>(i, maxRows, _). maxRows - i)") auto

declare writeFrame_loop.simps [simp del]

text \<open>
  \<open>writeFrame\<close> takes the terminal's row count (read afresh at every call), the renderer and
  the lines; it returns the renderer with the new baseline and the strings handed to
  \<open>process.stdout.write\<close> during the call (none, or the joined buffer).
\<close>

definition writeFrame ::
  "nat option \<Rightarrow> TerminalRenderer \<Rightarrow> jsstring list \<Rightarrow> TerminalRenderer \<times> jsstring list" where
  "writeFrame stdoutRows r lines =
    (let terminalHeight = orDefault stdoutRows 24;
         clippedLines = take terminalHeight lines;
         maxRows = max (length clippedLines) (length (previousFrame r));
         buffer = writeFrame_loop 0 maxRows clippedLines (previousFrame r) [cursorHome];
         written = (if length buffer > 0 then [concat buffer] else [])
     in (r\<lparr>previousFrame := clippedLines\<rparr>, written))"

text \<open>The number of code units a call wrote to the output stream.\<close>

definition unitsWritten :: "jsstring list \<Rightarrow> nat" where
  "unitsWritten written = length (concat written)"

section \<open>Domain types (\<open>types.ts\<close>)\<close>

datatype ShiftType = SMOOTH | MOOD_SWITCH | ENERGY_UP | RHYTHMIC_BREAKER

text \<open>The string value of each member, and \<open>Object.values(ShiftType)\<close> in declaration order.\<close>

fun shiftTypeValue :: "ShiftType \<Rightarrow> jsstring" where
  "shiftTypeValue SMOOTH = js ''Smooth''"
| "shiftTypeValue MOOD_SWITCH = js ''Mood Switch''"
| "shiftTypeValue ENERGY_UP = js ''Energy Up''"
| "shiftTypeValue RHYTHMIC_BREAKER = js ''Rhythmic/Dead-End Breaker''"

definition ShiftType_values :: "ShiftType list" where
  "ShiftType_values = [SMOOTH, MOOD_SWITCH, ENERGY_UP, RHYTHMIC_BREAKER]"

text \<open>The type \<open>ShiftType | 'ALL'\<close> of the selected category.\<close>

datatype Category = AllTypes | Only ShiftType

fun categoryValue :: "Category \<Rightarrow> jsstring" where
  "categoryValue AllTypes = js ''ALL''"
| "categoryValue (Only t) = shiftTypeValue t"

record AudioFeatures =
  tempo :: number
  time_signature :: "number option"

record CurrentTrack =
  track_name :: jsstring
  artist :: jsstring
  camelot_key :: "jsstring option"
  progress_ms :: number
  duration_ms :: number
  timestamp :: number
  isPlaying :: bool
  audio_features :: AudioFeatures

record MatchedTrack =
  track_name :: jsstring
  artist :: jsstring
  camelot_key :: jsstring
  bpm :: number
  shiftType :: ShiftType

section \<open>The environment of a render call\<close>

text \<open>
  What \<open>spotifydj.ts\<close> reads from outside itself: the size of the output stream, the
  clock (one reading of \<open>Date.now()\<close> for the whole call), the package version, the
  colour table of \<open>camelotColors.ts\<close>, the libraries \<open>string-width\<close> and \<open>strip-ansi\<close>,
  the built-ins \<open>Number.prototype.toFixed(1)\<close>, \<open>parseInt(_, 16)\<close> (\<open>None\<close> is
  \<open>NaN\<close>) and the conversion of a number to a string in a template, and the user, host and directory shown in the status bar.
\<close>

record Env =
  stdoutColumns :: "nat option"
  stdoutRows :: "nat option"
  dateNow :: number
  packageVersion :: jsstring
  getCamelotColor :: "jsstring \<Rightarrow> jsstring"
  stringWidth :: "jsstring \<Rightarrow> nat"
  stripAnsi :: "jsstring \<Rightarrow> jsstring"
  toFixed1 :: "number \<Rightarrow> jsstring"
  parseInt16 :: "jsstring \<Rightarrow> int option"
  numberToString :: "number \<Rightarrow> jsstring"
  envUSER :: "jsstring option"
  osUsername :: jsstring
  osHostname :: jsstring
  processCwd :: jsstring
  osHomedir :: jsstring

section \<open>Colours, glyphs and string helpers\<close>

definition colors_reset :: jsstring where "colors_reset = ESC @ js ''[0m''"
definition colors_bright :: jsstring where "colors_bright = ESC @ js ''[1m''"
definition colors_dim :: jsstring where "colors_dim = ESC @ js ''[2m''"
definition colors_red :: jsstring where "colors_red = ESC @ js ''[31m''"
definition colors_green :: jsstring where "colors_green = ESC @ js ''[32m''"
definition colors_yellow :: jsstring where "colors_yellow = ESC @ js ''[33m''"
definition colors_blue :: jsstring where "colors_blue = ESC @ js ''[34m''"
definition colors_magenta :: jsstring where "colors_magenta = ESC @ js ''[35m''"
definition colors_cyan :: jsstring where "colors_cyan = ESC @ js ''[36m''"
definition colors_white :: jsstring where "colors_white = ESC @ js ''[37m''"
definition colors_bgBlue :: jsstring where "colors_bgBlue = ESC @ js ''[44m''"
definition colors_spotifyGreen :: jsstring where
  "colors_spotifyGreen = ESC @ js ''[38;2;29;185;84m''"
definition colors_zshGreen :: jsstring where "colors_zshGreen = ESC @ js ''[32m''"
definition colors_zshBlue :: jsstring where "colors_zshBlue = ESC @ js ''[34m''"
definition colors_zshYellow :: jsstring where "colors_zshYellow = ESC @ js ''[33m''"

definition FRAME_BASE_COLOR :: jsstring where
  "FRAME_BASE_COLOR = colors_bright @ colors_cyan"
definition FRAME_RIPPLE_COLOR :: jsstring where
  "FRAME_RIPPLE_COLOR = colors_spotifyGreen @ colors_bright"
definition RIPPLE_GLYPH :: jsstring where "RIPPLE_GLYPH = [9618]"
definition RIPPLE_BAND :: int where "RIPPLE_BAND = 5"
definition RIPPLE_STEP_MS :: number where "RIPPLE_STEP_MS = 90"
definition BASE_BAR_BG :: jsstring where "BASE_BAR_BG = ESC @ js ''[48;2;30;30;30m''"
definition SCAN_GRADIENT :: "number list" where
  "SCAN_GRADIENT = [rnd (3 / 10), rnd (6 / 10), 1, rnd (6 / 10), rnd (3 / 10)]"

text \<open>The characters outside ASCII that the source writes, as UTF-16 code units.\<close>

definition glyph_boxTopLeft :: jsstring where "glyph_boxTopLeft = [9556]"
definition glyph_boxTopRight :: jsstring where "glyph_boxTopRight = [9559]"
definition glyph_boxBottomLeft :: jsstring where "glyph_boxBottomLeft = [9562]"
definition glyph_boxBottomRight :: jsstring where "glyph_boxBottomRight = [9565]"
definition glyph_boxHorizontal :: jsstring where "glyph_boxHorizontal = [9552]"
definition glyph_boxVertical :: jsstring where "glyph_boxVertical = [9553]"
definition glyph_fullBlock :: jsstring where "glyph_fullBlock = [9608]"
definition glyph_lightShade :: jsstring where "glyph_lightShade = [9617]"
definition glyph_rule :: jsstring where "glyph_rule = [9472]"
definition glyph_warning :: jsstring where "glyph_warning = [9888, 65039]"
definition glyph_antenna :: jsstring where "glyph_antenna = [7140]"
definition glyph_emDash :: jsstring where "glyph_emDash = [8212]"
definition glyph_record :: jsstring where "glyph_record = [9210]"
definition glyph_ellipsis :: jsstring where "glyph_ellipsis = [8230]"
definition glyph_disc :: jsstring where "glyph_disc = [55357, 56511]"
definition glyph_bullet :: jsstring where "glyph_bullet = [8226]"
definition glyph_barFilled :: jsstring where "glyph_barFilled = [9648]"
definition glyph_barEmpty :: jsstring where "glyph_barEmpty = [9649]"
definition glyph_stopwatch :: jsstring where "glyph_stopwatch = [9201]"
definition glyph_bolt :: jsstring where "glyph_bolt = [9889]"
definition glyph_triangleDown :: jsstring where "glyph_triangleDown = [9660]"

text \<open>\<open>s.repeat(n)\<close> for a count that is not negative, and an integer in a template.\<close>

definition repeat :: "jsstring \<Rightarrow> nat \<Rightarrow> jsstring" where
  "repeat s n = concat (replicate n s)"

definition showInt :: "int \<Rightarrow> jsstring" where
  "showInt i = (if i < 0 then js ''-'' @ decimal (nat (- i)) else decimal (nat i))"

definition showParsed :: "int option \<Rightarrow> jsstring" where
  "showParsed v = (case v of None \<Rightarrow> js ''NaN'' | Some i \<Rightarrow> showInt i)"

text \<open>\<open>a % b\<close> on integers, the quotient truncated towards zero.\<close>

definition js_irem :: "int \<Rightarrow> int \<Rightarrow> int" where
  "js_irem a b = sgn a * (\<bar>a\<bar> mod \<bar>b\<bar>)"

text \<open>\<open>Math.round\<close>: the nearest integer, a half rounded up (exact on every double).\<close>

definition Math_round :: "number \<Rightarrow> int" where
  "Math_round x = \<lfloor>x + 1 / 2\<rfloor>"

text \<open>\<open>String.prototype.trim\<close>: white space and line terminators at both ends.\<close>

definition isWhiteSpace :: "nat \<Rightarrow> bool" where
  "isWhiteSpace c = (c \<in> set [9, 10, 11, 12, 13, 32, 160, 5760, 8232, 8233, 8239, 8287,
     12288, 65279] \<or> (8192 \<le> c \<and> c \<le> 8202))"

definition trim :: "jsstring \<Rightarrow> jsstring" where
  "trim s = rev (dropWhile isWhiteSpace (rev (dropWhile isWhiteSpace s)))"

text \<open>\<open>s.split('.')[0]\<close> and \<open>s.replace(pattern, replacement)\<close> with a string pattern.\<close>

definition beforeFirstDot :: "jsstring \<Rightarrow> jsstring" where
  "beforeFirstDot s = takeWhile (\<lambda>c. c \<noteq> 46) s"

fun replaceFirst :: "jsstring \<Rightarrow> jsstring \<Rightarrow> jsstring \<Rightarrow> jsstring" where
  "replaceFirst [] pat rep = (if pat = [] then rep else [])"
| "replaceFirst (c # cs) pat rep =
     (if take (length pat) (c # cs) = pat then rep @ drop (length pat) (c # cs)
      else c # replaceFirst cs pat rep)"

section \<open>Module-level helpers of \<open>spotifydj.ts\<close>\<close>

definition hexToAnsi :: "Env \<Rightarrow> jsstring \<Rightarrow> jsstring" where
  "hexToAnsi env hex =
    (let r = parseInt16 env (take 2 (drop 1 hex));
         g = parseInt16 env (take 2 (drop 3 hex));
         b = parseInt16 env (take 2 (drop 5 hex))
     in ESC @ js ''[38;2;'' @ showParsed r @ js '';'' @ showParsed g @ js '';'' @ showParsed b
          @ js ''m'')"

definition VERSION :: "Env \<Rightarrow> jsstring" where
  "VERSION env = js ''v'' @ packageVersion env"

definition center :: "Env \<Rightarrow> jsstring \<Rightarrow> int \<Rightarrow> jsstring" where
  "center env text width =
    (let visibleWidth = int (stringWidth env (stripAnsi env text)) in
     if visibleWidth \<ge> width then text
     else
       let padLeft = (width - visibleWidth) div 2
       in repeat (js '' '') (nat padLeft) @ text
            @ repeat (js '' '') (nat (width - visibleWidth - padLeft)))"

record RippleState =
  active :: bool
  band :: int
  cycle :: int
  phase :: int

definition buildRippleState :: "Env \<Rightarrow> int \<Rightarrow> int \<Rightarrow> bool \<Rightarrow> RippleState" where
  "buildRippleState env frameWidth frameHeight isActive =
    (let virtualHeight = max 6 (min frameHeight 60);
         cycle = frameWidth + virtualHeight;
         phase = js_irem \<lfloor>fdiv (dateNow env) RIPPLE_STEP_MS\<rfloor> cycle
     in \<lparr>active = isActive, band = RIPPLE_BAND, cycle = cycle, phase = phase\<rparr>)"

definition isInRipple :: "int \<Rightarrow> int \<Rightarrow> RippleState \<Rightarrow> bool" where
  "isInRipple row col ripple =
    (if \<not> active ripple then False
     else
       let position = js_irem (row + col) (cycle ripple);
           windowEnd = js_irem (phase ripple + band ripple) (cycle ripple)
       in if phase ripple \<le> windowEnd
          then position \<ge> phase ripple \<and> position \<le> windowEnd
          else position \<ge> phase ripple \<or> position \<le> windowEnd)"

definition colorizeFrameChar ::
  "jsstring \<Rightarrow> int \<Rightarrow> int \<Rightarrow> RippleState \<Rightarrow> bool \<Rightarrow> jsstring" where
  "colorizeFrameChar ch row col ripple useRippleGlyph =
    (let isActive = isInRipple row col ripple;
         glyph = (if isActive \<and> useRippleGlyph then RIPPLE_GLYPH else ch);
         color = (if isActive then FRAME_RIPPLE_COLOR else FRAME_BASE_COLOR)
     in color @ glyph @ colors_reset)"

definition buildRippleBorderLine :: "int \<Rightarrow> int \<Rightarrow> RippleState \<Rightarrow> bool \<Rightarrow> jsstring" where
  "buildRippleBorderLine width rowIndex ripple isBottom =
    (let leftCorner = (if isBottom then glyph_boxBottomLeft else glyph_boxTopLeft);
         rightCorner = (if isBottom then glyph_boxBottomRight else glyph_boxTopRight);
         chars = map (\<lambda>c. let col = int c in
                    if col = 0 then colorizeFrameChar leftCorner rowIndex col ripple False
                    else if col = width + 1 then
                      colorizeFrameChar rightCorner rowIndex col ripple False
                    else colorizeFrameChar glyph_boxHorizontal rowIndex col ripple True)
                  [0..<nat (width + 2)]
     in concat chars)"

definition buildRippleTitleLine ::
  "Env \<Rightarrow> jsstring \<Rightarrow> int \<Rightarrow> int \<Rightarrow> RippleState \<Rightarrow> jsstring" where
  "buildRippleTitleLine env title width rowIndex ripple =
    (let centeredTitle = center env title width;
         leftBorder = colorizeFrameChar glyph_boxVertical rowIndex 0 ripple False;
         rightBorder = colorizeFrameChar glyph_boxVertical rowIndex (width + 1) ripple False
     in leftBorder @ FRAME_BASE_COLOR @ centeredTitle @ colors_reset @ rightBorder
          @ colors_reset)"

record RgbColor =
  rgb_r :: number
  rgb_g :: number
  rgb_b :: number

record ScanSettings =
  speedMs :: number
  pulseWidth :: int
  baseColor :: RgbColor
  freeze :: bool
  warningFg :: "jsstring option"

definition getScanSettings :: "number \<Rightarrow> ScanSettings" where
  "getScanSettings beatsRem =
    (if beatsRem \<le> 8 then
       \<lparr>speedMs = 0, pulseWidth = int (length SCAN_GRADIENT),
        baseColor = \<lparr>rgb_r = 210, rgb_g = 90, rgb_b = 50\<rparr>,
        freeze = True, warningFg = Some colors_red\<rparr>
     else if beatsRem \<le> 16 then
       \<lparr>speedMs = 50, pulseWidth = int (length SCAN_GRADIENT),
        baseColor = \<lparr>rgb_r = 210, rgb_g = 160, rgb_b = 60\<rparr>,
        freeze = False, warningFg = None\<rparr>
     else if beatsRem \<le> 32 then
       \<lparr>speedMs = 100, pulseWidth = int (length SCAN_GRADIENT),
        baseColor = \<lparr>rgb_r = 70, rgb_g = 160, rgb_b = 180\<rparr>,
        freeze = False, warningFg = None\<rparr>
     else
       \<lparr>speedMs = 250, pulseWidth = int (length SCAN_GRADIENT),
        baseColor = \<lparr>rgb_r = 40, rgb_g = 110, rgb_b = 130\<rparr>,
        freeze = False, warningFg = None\<rparr>)"

definition makeBg :: "RgbColor \<Rightarrow> number \<Rightarrow> jsstring" where
  "makeBg color factor =
    (let clamp = (\<lambda>v. max 0 (min 255 (Math_round v)));
         r = clamp (fmul (rgb_r color) factor);
         g = clamp (fmul (rgb_g color) factor);
         b = clamp (fmul (rgb_b color) factor)
     in ESC @ js ''[48;2;'' @ showInt r @ js '';'' @ showInt g @ js '';'' @ showInt b @ js ''m'')"

definition getPulseCenter :: "Env \<Rightarrow> int \<Rightarrow> ScanSettings \<Rightarrow> int" where
  "getPulseCenter env len scan =
    (if freeze scan \<or> speedMs scan \<le> 0 then len div 2
     else js_irem \<lfloor>fdiv (dateNow env) (speedMs scan)\<rfloor> len)"

definition wrapDistance :: "int \<Rightarrow> int \<Rightarrow> int \<Rightarrow> int" where
  "wrapDistance a b len = (let direct = \<bar>a - b\<bar> in min direct (len - direct))"

text \<open>\<open>buildScanlineBar\<close> returns the bar and the colour of its label.\<close>

definition buildScanlineBar :: "Env \<Rightarrow> number \<Rightarrow> jsstring \<times> jsstring" where
  "buildScanlineBar env beatsRem =
    (let barLength = 32;
         filled = max 0 (min barLength \<lfloor>beatsRem\<rfloor>);
         chars = map (\<lambda>i. if int i < filled then glyph_fullBlock else glyph_lightShade)
                   [0..<nat barLength];
         scan = getScanSettings beatsRem;
         pulseCenter = getPulseCenter env barLength scan;
         colored = map (\<lambda>(ch, idx).
             let dist = wrapDistance (int idx) pulseCenter barLength in
             if dist > pulseWidth scan div 2 then
               BASE_BAR_BG @ colors_dim @ ch @ colors_reset
             else
               let gradientIdx = min (dist + pulseWidth scan div 2)
                                     (int (length SCAN_GRADIENT) - 1);
                   factor = (if 0 \<le> gradientIdx \<and> nat gradientIdx < length SCAN_GRADIENT
                             then SCAN_GRADIENT ! nat gradientIdx else rnd (3 / 10));
                   bg = makeBg (baseColor scan) factor;
                   textColor = (if freeze scan then colors_bright else colors_reset)
               in bg @ textColor @ ch @ colors_reset)
           (zip chars [0..<length chars]);
         labelColor = (if freeze scan then colors_red else colors_white)
     in (concat colored, labelColor))"

definition buildHelpPanel :: "int \<Rightarrow> jsstring list" where
  "buildHelpPanel width =
    (let separator = repeat glyph_rule (nat width) in
     [colors_dim @ separator @ colors_reset,
      colors_bright @ colors_cyan @ js ''HELP'' @ colors_reset,
      colors_dim @ separator @ colors_reset,
      colors_bright @ js ''h'' @ colors_reset @ js '': toggle help   '' @ colors_bright
        @ js ''tab'' @ colors_reset @ js '': categories   '' @ colors_bright @ js ''w/s''
        @ colors_reset @ js '': scroll'',
      colors_bright @ js ''r'' @ colors_reset @ js '': refresh library   '' @ colors_bright
        @ js ''Ctrl+C'' @ colors_reset @ js '': exit'',
      colors_dim
        @ js ''Scanline glow speeds up near the mix window and locks red inside the final 8 beats.''
        @ colors_reset])"

definition buildStatusBar :: "Env \<Rightarrow> int \<Rightarrow> bool \<Rightarrow> RippleState \<Rightarrow> int \<Rightarrow> jsstring list" where
  "buildStatusBar env width showWarning ripple rowIndex =
    (let statusWidth = min width 120;
         effectiveWidth = max 62 (statusWidth - 2);
         separator = buildRippleBorderLine effectiveWidth rowIndex ripple True
     in if showWarning then [separator, js '' Press Ctrl-C again to exit '']
        else
          let username = (case envUSER env of
                            None \<Rightarrow> osUsername env
                          | Some u \<Rightarrow> if u = [] then osUsername env else u);
              hostname = beforeFirstDot (osHostname env);
              userHost = username @ js ''@'' @ hostname;
              cwd = replaceFirst (processCwd env) (osHomedir env) (js ''~'');
              branch = js ''<main>'';
              controls = js ''w/s: scroll | tab: category | r: refresh | h: help''
          in [separator,
              colors_zshGreen @ userHost @ colors_reset @ js '' | '' @ colors_white @ controls
                @ colors_reset,
              colors_zshBlue @ cwd @ js ''  '' @ colors_zshYellow @ branch @ colors_reset])"

text \<open>\<open>xs.join(sep)\<close>, and \<open>xs.slice(start, end)\<close> with the relative indices of JavaScript.\<close>

fun joinWith :: "jsstring \<Rightarrow> jsstring list \<Rightarrow> jsstring" where
  "joinWith sep [] = []"
| "joinWith sep [x] = x"
| "joinWith sep (x # y # ys) = x @ sep @ joinWith sep (y # ys)"

definition js_slice :: "'a list \<Rightarrow> int \<Rightarrow> int \<Rightarrow> 'a list" where
  "js_slice xs start stop =
    (let len = int (length xs);
         k = (if start < 0 then max (len + start) 0 else min start len);
         final = (if stop < 0 then max (len + stop) 0 else min stop len)
     in take (nat (final - k)) (drop (nat k) xs))"

text \<open>\<open>s.substring(start, end)\<close>: both indices clamped to the string, swapped when out of order.\<close>

definition js_substring :: "jsstring \<Rightarrow> int \<Rightarrow> int \<Rightarrow> jsstring" where
  "js_substring s start stop =
    (let len = int (length s);
         finalStart = min (max start 0) len;
         finalEnd = min (max stop 0) len;
         lo = min finalStart finalEnd;
         hi = max finalStart finalEnd
     in take (nat (hi - lo)) (drop (nat lo) s))"

text \<open>\<open>a || b\<close> on strings: the empty string is falsy.\<close>

definition orElse :: "jsstring \<Rightarrow> jsstring \<Rightarrow> jsstring" where
  "orElse a b = (if a = [] then b else a)"

section \<open>\<open>TerminalRenderer.renderTrainBoard\<close>\<close>

text \<open>
  The method is one long sequence of pushes to \<open>lines\<close>. It is cut here into the blocks of
  the source, in order; \<open>renderTrainBoard\<close> below puts them together. The geometry every
  block uses:
\<close>

definition terminalWidth :: "Env \<Rightarrow> int" where
  "terminalWidth env = int (orDefault (stdoutColumns env) 80)"

definition terminalHeight :: "Env \<Rightarrow> int" where
  "terminalHeight env = int (orDefault (stdoutRows env) 24)"

definition effectiveWidth :: "Env \<Rightarrow> int" where
  "effectiveWidth env = (let uiWidth = min (terminalWidth env) 120 in max 62 (uiWidth - 2))"

definition boardRipple :: "Env \<Rightarrow> CurrentTrack option \<Rightarrow> RippleState" where
  "boardRipple env currentTrack =
    (let frameWidth = effectiveWidth env + 2
     in buildRippleState env frameWidth (terminalHeight env) (currentTrack \<noteq> None))"

text \<open>The title box, the version line and an empty line; then the notices.\<close>

definition headerLines :: "Env \<Rightarrow> CurrentTrack option \<Rightarrow> jsstring list" where
  "headerLines env currentTrack =
    (let ripple = boardRipple env currentTrack;
         title = colors_spotifyGreen @ glyph_antenna @ js '' SpotifyDJ'' @ colors_reset
                   @ js '' '' @ glyph_emDash @ js '' Real-Time DJ Assistant'';
         lines0 = [];
         topLine = buildRippleBorderLine (effectiveWidth env) (int (length lines0)) ripple False;
         lines1 = lines0 @ [topLine];
         middleLine = buildRippleTitleLine env title (effectiveWidth env) (int (length lines1))
                        ripple;
         lines2 = lines1 @ [middleLine];
         bottomLine = buildRippleBorderLine (effectiveWidth env) (int (length lines2)) ripple True;
         lines3 = lines2 @ [bottomLine]
     in lines3 @ [colors_dim @ js ''Version: '' @ VERSION env @ colors_reset, []])"

definition noticeLines :: "jsstring list \<Rightarrow> jsstring list" where
  "noticeLines notices =
    (if length notices > 0 then
       map (\<lambda>note. colors_yellow @ glyph_warning @ js ''  '' @ note @ colors_reset) notices @ [[]]
     else [])"

text \<open>
  The playback position (for the clock reading \<open>now\<close>), the width of the progress bar,
  the fraction played and the number of filled cells, as the track block computes them.
  The position is a sum and a difference of millisecond counts, integers far below
  \<open>2\<^sup>5\<^sup>3\<close>, on which \<open>+\<close> and \<open>-\<close> are exact; the quotient and the product round.
\<close>

definition currentMs :: "number \<Rightarrow> CurrentTrack \<Rightarrow> number" where
  "currentMs now currentTrack =
    (let elapsed = now - timestamp currentTrack;
         baseProgressMs = progress_ms currentTrack;
         additionalProgressMs = (if isPlaying currentTrack then elapsed else 0)
     in min (baseProgressMs + additionalProgressMs) (duration_ms currentTrack))"

definition barWidth :: "Env \<Rightarrow> int" where
  "barWidth env = max 40 (min 60 \<lfloor>fmul (of_int (effectiveWidth env)) (1 / 2)\<rfloor>)"

definition percent :: "number \<Rightarrow> number \<Rightarrow> number" where
  "percent curMs durationMs =
    (if durationMs \<le> 0 then 0 else min 1 (max 0 (fdiv curMs durationMs)))"

definition filledLen :: "int \<Rightarrow> number \<Rightarrow> int" where
  "filledLen width pct =
    (if pct \<ge> 1 then width
     else if pct \<le> 0 then 0
     else min (Math_round (fmul (of_int width) pct)) width)"

definition progressBar :: "Env \<Rightarrow> CurrentTrack \<Rightarrow> jsstring" where
  "progressBar env currentTrack =
    (let filled = filledLen (barWidth env)
                    (percent (currentMs (dateNow env) currentTrack)
                       (duration_ms currentTrack));
         emptyLen = barWidth env - filled
     in repeat glyph_barFilled (nat filled) @ repeat glyph_barEmpty (nat emptyLen))"

text \<open>The block \<open>if (phraseInfo) { ... }\<close> of the track section.\<close>

definition phraseLines :: "Env \<Rightarrow> CurrentTrack \<Rightarrow> PhraseInfo option \<Rightarrow> jsstring list" where
  "phraseLines env currentTrack phraseInfo =
    (case phraseInfo of
       None \<Rightarrow> []
     | Some info \<Rightarrow>
         if beatsRemaining info > 0 then
           (let (bar, labelColor) = buildScanlineBar env (beatsRemaining info) in
            [colors_bright @ glyph_stopwatch @ js ''  Phrase Matching'' @ colors_reset,
             bar,
             labelColor @ js ''Beats Rem: '' @ toFixed1 env (beatsRemaining info)
               @ js '' | Time: '' @ toFixed1 env (timeRemainingSeconds info) @ js ''s''
               @ colors_reset,
             []])
         else
           (case time_signature (audio_features currentTrack) of
              None \<Rightarrow> []
            | Some sig \<Rightarrow>
                if sig \<noteq> 0 \<and> sig \<noteq> 4 then
                  [colors_yellow @ glyph_warning @ js ''  Non-4/4 time signature detected (''
                     @ numberToString env sig @ js ''/4)'' @ colors_reset,
                   colors_dim @ js ''Phrase counter disabled for non-4/4 tracks''
                     @ colors_reset,
                   []]
                else []))"

text \<open>The section \<open>if (!currentTrack) { ... } else { ... }\<close>.\<close>

definition trackLines ::
  "Env \<Rightarrow> CurrentTrack option \<Rightarrow> PhraseInfo option \<Rightarrow> jsstring list" where
  "trackLines env currentTrackOpt phraseInfo =
    (case currentTrackOpt of
       None \<Rightarrow> [colors_yellow @ js ''Waiting for playback...'' @ colors_reset]
     | Some currentTrack \<Rightarrow>
        (let now = dateNow env;
             isFlashOn = (isPlaying currentTrack \<and> js_irem \<lfloor>fdiv now 500\<rfloor> 2 = 0);
             recordIndicator = (if isFlashOn then colors_spotifyGreen @ glyph_record @ colors_reset
                                else colors_dim @ glyph_record @ colors_reset);
             trackName = colors_bright @ CurrentTrack.track_name currentTrack @ colors_reset;
             artistName = colors_bright @ CurrentTrack.artist currentTrack @ colors_reset;
             rawInfo = CurrentTrack.track_name currentTrack @ js '' '' @ glyph_emDash @ js '' ''
                         @ CurrentTrack.artist currentTrack;
             maxInfoWidth = effectiveWidth env - 10;
             displayInfo =
               (if int (length rawInfo) > maxInfoWidth then
                  (let truncatedRaw = js_substring rawInfo 0 (maxInfoWidth - 1) @ glyph_ellipsis
                   in colors_bright @ truncatedRaw @ colors_reset)
                else trackName @ js '' '' @ glyph_emDash @ js '' '' @ artistName);
             bpmVal = orElse (toFixed1 env (tempo (audio_features currentTrack))) (js ''0.0'');
             camelVal = (case CurrentTrack.camelot_key currentTrack of
                           None \<Rightarrow> js ''-'' | Some k \<Rightarrow> orElse k (js ''-''));
             coloredCamel =
               (case CurrentTrack.camelot_key currentTrack of
                  None \<Rightarrow> camelVal
                | Some k \<Rightarrow>
                    if k = [] then camelVal
                    else (let hex = getCamelotColor env k;
                              ansiColor = hexToAnsi env hex
                          in ansiColor @ colors_bright @ camelVal @ colors_reset));
             detailsStr = colors_bright @ js ''BPM:'' @ colors_reset @ js '' '' @ bpmVal
                            @ js ''  '' @ colors_dim @ glyph_bullet @ colors_reset @ js ''  ''
                            @ colors_bright @ js ''Camelot:'' @ colors_reset @ js '' ''
                            @ coloredCamel;
             bar = progressBar env currentTrack
         in [glyph_disc @ js ''  '' @ displayInfo @ js '' '' @ recordIndicator,
             js ''    '' @ detailsStr,
             [],
             js ''  '' @ bar,
             []]
            @ phraseLines env currentTrack phraseInfo))"

text \<open>The recommendations title, the tab strip and the rule below it.\<close>

definition tabLines :: "Env \<Rightarrow> CurrentTrack option \<Rightarrow> Category \<Rightarrow> jsstring list" where
  "tabLines env currentTrack selectedCategory =
    (let categories = AllTypes # map Only ShiftType_values;
         tabs = joinWith (js '' '')
                  (map (\<lambda>cat. if cat = selectedCategory
                               then colors_bgBlue @ colors_white @ js '' '' @ categoryValue cat
                                      @ js '' '' @ colors_reset
                               else colors_dim @ js '' '' @ categoryValue cat @ js '' ''
                                      @ colors_reset)
                     categories);
         currentBpm = (case currentTrack of
                         None \<Rightarrow> js ''0.0''
                       | Some t \<Rightarrow> orElse (toFixed1 env (tempo (audio_features t))) (js ''0.0''))
     in [colors_bright @ colors_spotifyGreen @ glyph_bolt @ js '' Recommendations''
           @ colors_reset @ js '' '' @ colors_dim @ js ''(Current: '' @ currentBpm
           @ js '' BPM)'' @ colors_reset,
         tabs,
         colors_dim @ repeat glyph_rule (nat (effectiveWidth env)) @ colors_reset])"

text \<open>Everything pushed before the recommendation list; its length is \<open>usedLinesTop\<close>.\<close>

definition topLines ::
  "Env \<Rightarrow> CurrentTrack option \<Rightarrow> PhraseInfo option \<Rightarrow> Category \<Rightarrow> jsstring list
     \<Rightarrow> jsstring list" where
  "topLines env currentTrack phraseInfo selectedCategory notices =
    headerLines env currentTrack @ noticeLines notices @ trackLines env currentTrack phraseInfo
      @ tabLines env currentTrack selectedCategory"

text \<open>The rows reserved at the bottom: status bar, help panel and debug log.\<close>

definition statusLineCount :: "bool \<Rightarrow> int" where
  "statusLineCount showExitWarning = (if showExitWarning then 2 else 3)"

definition helpLines :: "Env \<Rightarrow> bool \<Rightarrow> jsstring list" where
  "helpLines env showHelp = (if showHelp then buildHelpPanel (effectiveWidth env) else [])"

definition logLines :: "Env \<Rightarrow> jsstring list \<Rightarrow> jsstring list" where
  "logLines env logs =
    (if length logs > 0 then
       (let separator = repeat glyph_rule (nat (effectiveWidth env))
        in [[], colors_dim @ separator @ colors_reset,
            colors_bright @ colors_red @ js ''DEBUG LOGS:'' @ colors_reset]
           @ map (\<lambda>log. colors_dim @ log @ colors_reset) logs)
     else [])"

definition reservedLines :: "Env \<Rightarrow> bool \<Rightarrow> bool \<Rightarrow> jsstring list \<Rightarrow> int" where
  "reservedLines env showExitWarning showHelp logs =
    (let reserved0 = statusLineCount showExitWarning + 1;
         reserved1 = (if showHelp then reserved0 + int (length (helpLines env showHelp)) + 1
                      else reserved0);
         reserved2 = (if length logs > 0 then reserved1 + int (length (logLines env logs))
                      else reserved1)
     in reserved2)"

definition availableForRecs ::
  "Env \<Rightarrow> int \<Rightarrow> bool \<Rightarrow> bool \<Rightarrow> jsstring list \<Rightarrow> int" where
  "availableForRecs env usedLinesTop showExitWarning showHelp logs =
    max 0 (terminalHeight env - 1 - usedLinesTop - reservedLines env showExitWarning showHelp logs)"

text \<open>The rows of the recommendation list, before scrolling.\<close>

function truncateToWidth :: "Env \<Rightarrow> int \<Rightarrow> jsstring \<Rightarrow> jsstring" where
  "truncateToWidth env available truncated =
    (if int (stringWidth env truncated) > available \<and> length truncated > 0
     then truncateToWidth env available (js_slice truncated 0 (- 1))
     else truncated)"
  by pat_completeness auto
termination
proof (relation "measure (\<lambda>(env, available, truncated). length truncated)")
  show "wf (measure (\<lambda>(env :: Env, available :: int, truncated :: jsstring). length truncated))"
    by simp
next
  fix env :: Env and available :: int and truncated :: jsstring
  assume "available < int (stringWidth env truncated) \<and> 0 < length truncated"
  then have pos: "0 < length truncated" by simp
  have "nat (int (length truncated) - 1) < length truncated"
    using pos by arith
  then have "length (js_slice truncated 0 (- 1)) < length truncated"
    by (auto simp: js_slice_def)
  then show "((env, available, js_slice truncated 0 (- 1)), env, available, truncated)
               \<in> measure (\<lambda>(env, available, truncated). length truncated)"
    by simp
qed

declare truncateToWidth.simps [simp del]

definition typeColor :: "ShiftType \<Rightarrow> jsstring" where
  "typeColor type =
    (let c0 = colors_white;
         c1 = (if type = SMOOTH then colors_spotifyGreen else c0);
         c2 = (if type = ENERGY_UP then colors_yellow else c1);
         c3 = (if type = MOOD_SWITCH then colors_magenta else c2);
         c4 = (if type = RHYTHMIC_BREAKER then colors_red else c3)
     in c4)"

definition trackRow :: "Env \<Rightarrow> CurrentTrack option \<Rightarrow> MatchedTrack \<Rightarrow> jsstring" where
  "trackRow env currentTrack track =
    (let hex = getCamelotColor env (MatchedTrack.camelot_key track);
         ansiColor = hexToAnsi env hex;
         coloredKey = ansiColor @ js ''['' @ MatchedTrack.camelot_key track @ js '']''
                        @ colors_reset;
         bpmDiffStr =
           (case currentTrack of
              None \<Rightarrow> []
            | Some cur \<Rightarrow>
                if tempo (audio_features cur) \<noteq> 0 then
                  (let bpmDiff = fmul (fdiv (fsub (bpm track) (tempo (audio_features cur)))
                                          (tempo (audio_features cur))) 100;
                       diffStr = (if bpmDiff \<ge> 0 then js ''+'' @ toFixed1 env bpmDiff @ js ''%''
                                  else toFixed1 env bpmDiff @ js ''%'');
                       bpmColor = (if \<bar>bpmDiff\<bar> > 5 then colors_yellow else colors_dim)
                   in js '' '' @ bpmColor @ diffStr @ colors_reset)
                else []);
         fullLine = js ''  '' @ coloredKey @ js '' '' @ MatchedTrack.track_name track
                      @ js '' - '' @ MatchedTrack.artist track @ js '' (''
                      @ toFixed1 env (bpm track) @ js '' BPM)'' @ bpmDiffStr;
         visualWidth = int (stringWidth env (stripAnsi env fullLine))
     in if visualWidth > effectiveWidth env then
          (let prefix = js ''  '' @ coloredKey @ js '' '';
               suffix = js '' ('' @ toFixed1 env (bpm track) @ js '' BPM)'' @ bpmDiffStr;
               prefixWidth = int (stringWidth env (stripAnsi env prefix));
               suffixWidth = int (stringWidth env (stripAnsi env suffix));
               availableForTrackInfo = effectiveWidth env - prefixWidth - suffixWidth - 1
           in if availableForTrackInfo > 10 then
                (let trackInfo = MatchedTrack.track_name track @ js '' - ''
                                   @ MatchedTrack.artist track;
                     truncated = truncateToWidth env availableForTrackInfo trackInfo;
                     truncated' = trim truncated @ glyph_ellipsis
                 in prefix @ truncated' @ suffix)
              else js_substring fullLine 0 (effectiveWidth env - 1) @ glyph_ellipsis)
        else fullLine)"

text \<open>
  The object \<open>grouped\<close>: in the \<open>ALL\<close> view each track is appended to the list of its
  type, otherwise the filtered list is stored under the selected type.
\<close>

definition groupTracks :: "Category \<Rightarrow> MatchedTrack list \<Rightarrow> (ShiftType \<rightharpoonup> MatchedTrack list)" where
  "groupTracks selectedCategory filteredRecs =
    (case selectedCategory of
       AllTypes \<Rightarrow>
         fold (\<lambda>track grouped.
                 grouped(shiftType track \<mapsto>
                   (case grouped (shiftType track) of None \<Rightarrow> [] | Some ts \<Rightarrow> ts) @ [track]))
              filteredRecs Map.empty
     | Only sel \<Rightarrow> Map.empty(sel \<mapsto> filteredRecs))"

definition displayLines ::
  "Env \<Rightarrow> CurrentTrack option \<Rightarrow> MatchedTrack list \<Rightarrow> Category \<Rightarrow> jsstring option \<Rightarrow> int
     \<Rightarrow> jsstring list" where
  "displayLines env currentTrack recommendations selectedCategory debugMessage
      totalTracksInLibrary =
    (if length recommendations = 0 then
       (if totalTracksInLibrary = 0 then
          [colors_dim @ js ''Library is empty.'' @ colors_reset,
           colors_dim
             @ js ''Tip: export your liked songs as Liked_Songs.csv (Exportify), drop it in this project, and run `npm run refresh:library` or press r.''
             @ colors_reset]
        else [colors_dim @ js ''No harmonic matches found in library.'' @ colors_reset])
       @ (case debugMessage of
            None \<Rightarrow> []
          | Some msg \<Rightarrow> if msg = [] then []
                        else [colors_red @ js ''DEBUG: '' @ msg @ colors_reset])
     else
       (let filteredRecs =
              (case selectedCategory of
                 AllTypes \<Rightarrow> recommendations
               | Only sel \<Rightarrow> filter (\<lambda>r. shiftType r = sel) recommendations);
            grouped = groupTracks selectedCategory filteredRecs;
            typeOrder = ShiftType_values;
            typesToRender = (case selectedCategory of
                               AllTypes \<Rightarrow> typeOrder | Only sel \<Rightarrow> [sel])
        in concat (map (\<lambda>type.
             case grouped type of
               None \<Rightarrow> []
             | Some tracks \<Rightarrow>
                 if length tracks > 0 then
                   (if selectedCategory = AllTypes
                    then typeColor type @ glyph_triangleDown @ js '' '' @ shiftTypeValue type
                           @ colors_reset
                    else colors_bright @ typeColor type @ shiftTypeValue type @ colors_reset)
                   # map (trackRow env currentTrack) tracks
                 else [])
           typesToRender)))"

text \<open>The loop \<open>while (lines.length < terminalHeight - statusLineCount) lines.push('')\<close>.\<close>

function padLines :: "int \<Rightarrow> jsstring list \<Rightarrow> jsstring list" where
  "padLines limit lines =
    (if int (length lines) < limit then padLines limit (lines @ [[]]) else lines)"
  by pat_completeness auto
termination
  by (relation "measure (\<lambda>(limit, lines). nat (limit - int (length lines)))") auto

declare padLines.simps [simp del]

record ScrollState =
  clampedOffset :: int
  maxScroll :: int

text \<open>
  The lines handed to \<open>writeFrame\<close> and the returned scroll state. The parameters are those
  of the method, in its order; \<open>scrollOffset\<close> and \<open>totalTracksInLibrary\<close> are integers.
\<close>

definition trainBoardLayout ::
  "Env \<Rightarrow> CurrentTrack option \<Rightarrow> MatchedTrack list \<Rightarrow> PhraseInfo option \<Rightarrow> bool
     \<Rightarrow> jsstring option \<Rightarrow> jsstring list \<Rightarrow> Category \<Rightarrow> int \<Rightarrow> bool \<Rightarrow> jsstring list \<Rightarrow> int
     \<Rightarrow> jsstring list \<times> ScrollState" where
  "trainBoardLayout env currentTrack recommendations phraseInfo showExitWarning debugMessage
      logs selectedCategory scrollOffset showHelp notices totalTracksInLibrary =
    (let lines0 = topLines env currentTrack phraseInfo selectedCategory notices;
         usedLinesTop = int (length lines0);
         available = availableForRecs env usedLinesTop showExitWarning showHelp logs;
         rows = displayLines env currentTrack recommendations selectedCategory debugMessage
                  totalTracksInLibrary;
         maxLines = available;
         totalLines = int (length rows);
         scrollOffset1 = (if scrollOffset < 0 then 0 else scrollOffset);
         maxScroll = max 0 (totalLines - maxLines);
         scrollOffset2 = (if scrollOffset1 > maxScroll then maxScroll else scrollOffset1);
         visibleLines = js_slice rows scrollOffset2 (scrollOffset2 + maxLines);
         lines1 = lines0 @ visibleLines;
         lines2 = (if totalLines > maxLines then lines1
                   else if length visibleLines = 0 \<and> totalLines > 0 then
                     lines1 @ [colors_dim @ js '' (Terminal too small to show tracks) ''
                                 @ colors_reset]
                   else lines1);
         lines3 = (if length (logLines env logs) > 0 then lines2 @ logLines env logs
                   else lines2);
         lines4 = (if showHelp then lines3 @ [[]] @ helpLines env showHelp else lines3);
         statusStartRow = max (terminalHeight env - statusLineCount showExitWarning)
                              (int (length lines4));
         statusLines = buildStatusBar env (terminalWidth env) showExitWarning
                         (boardRipple env currentTrack) statusStartRow;
         lines5 = padLines (terminalHeight env - statusLineCount showExitWarning) lines4;
         lines6 = lines5 @ statusLines
     in (lines6,
         \<lparr>clampedOffset = scrollOffset2, maxScroll = max 0 (totalLines - maxLines)\<rparr>))"

text \<open>
  \<open>renderTrainBoard\<close>: the layout, then \<open>writeFrame\<close>. It returns the renderer, what was
  written to the output stream, and the scroll state.
\<close>

definition renderTrainBoard ::
  "Env \<Rightarrow> TerminalRenderer \<Rightarrow> CurrentTrack option \<Rightarrow> MatchedTrack list \<Rightarrow> PhraseInfo option
     \<Rightarrow> bool \<Rightarrow> jsstring option \<Rightarrow> jsstring list \<Rightarrow> Category \<Rightarrow> int \<Rightarrow> bool \<Rightarrow> jsstring list
     \<Rightarrow> int \<Rightarrow> TerminalRenderer \<times> jsstring list \<times> ScrollState" where
  "renderTrainBoard env renderer currentTrack recommendations phraseInfo showExitWarning
      debugMessage logs selectedCategory scrollOffset showHelp notices totalTracksInLibrary =
    (let (lines, scroll) =
           trainBoardLayout env currentTrack recommendations phraseInfo showExitWarning
             debugMessage logs selectedCategory scrollOffset showHelp notices
             totalTracksInLibrary;
         (renderer', written) = writeFrame (stdoutRows env) renderer lines
     in (renderer', written, scroll))"

text \<open>\<open>renderNarrowWarning\<close> resets the cache and writes a fixed screen.\<close>

definition renderNarrowWarning ::
  "Env \<Rightarrow> TerminalRenderer \<Rightarrow> int \<Rightarrow> TerminalRenderer \<times> jsstring list" where
  "renderNarrowWarning env renderer width =
    (let renderer1 = resetFrameCache renderer;
         lines = [[],
                  colors_yellow @ glyph_warning @ js ''  Terminal too narrow!'' @ colors_reset,
                  js ''Minimum width: 80 characters'',
                  js ''Current width: '' @ showInt width @ js '' characters'',
                  [],
                  js ''Please resize your terminal window.'']
     in writeFrame (stdoutRows env) renderer1 lines)"

section \<open>An example environment\<close>

text \<open>
  A concrete environment on which the model is evaluated below: a terminal of 80 columns
  and 15 rows, the clock at 0, and simple stand-ins for the external functions. The
  theorems hold for every environment.
\<close>

definition exampleEnv :: Env where
  "exampleEnv =
    \<lparr>stdoutColumns = Some 80, stdoutRows = Some 15, dateNow = 0,
     packageVersion = js ''1.0.0'',
     getCamelotColor = (\<lambda>k. js ''#FFFFFF''),
     stringWidth = length,
     stripAnsi = (\<lambda>s. s),
     toFixed1 = (\<lambda>x. showInt \<lfloor>x\<rfloor> @ js ''.0''),
     parseInt16 = (\<lambda>s. Some 255),
     numberToString = (\<lambda>x. showInt \<lfloor>x\<rfloor>),
     envUSER = Some (js ''dj''), osUsername = js ''dj'', osHostname = js ''localhost'',
     processCwd = js ''/home/dj/mix'', osHomedir = js ''/home/dj''\<rparr>"

text \<open>
  Recommendations for the examples: the first four tracks of \<open>buildSampleRecommendations\<close>
  in \<open>ts_sandbox.ts\<close>, and the example terminal made one row taller.
\<close>

definition sampleRecommendations :: "MatchedTrack list" where
  "sampleRecommendations =
    [\<lparr>MatchedTrack.track_name = js ''MISSION'', MatchedTrack.artist = js ''SoFaygo'',
      MatchedTrack.camelot_key = js ''10A'', bpm = rnd (1569 / 10), shiftType = ENERGY_UP\<rparr>,
     \<lparr>MatchedTrack.track_name = js ''2AM'', MatchedTrack.artist = js ''SZA'',
      MatchedTrack.camelot_key = js ''8A'', bpm = 84, shiftType = MOOD_SWITCH\<rparr>,
     \<lparr>MatchedTrack.track_name = js ''Designer Thangs'', MatchedTrack.artist = js ''tana'',
      MatchedTrack.camelot_key = js ''10A'', bpm = 180, shiftType = ENERGY_UP\<rparr>,
     \<lparr>MatchedTrack.track_name = js ''Tralala (feat. JayO)'',
      MatchedTrack.artist = js ''Aya Nakamura;JayO'',
      MatchedTrack.camelot_key = js ''9A'', bpm = 92, shiftType = SMOOTH\<rparr>]"

definition exampleEnv16 :: Env where
  "exampleEnv16 = exampleEnv\<lparr>stdoutRows := Some 16\<rparr>"

section \<open>Properties of rounding\<close>

text \<open>
  Rounding is monotone on the numbers that are not negative, and it leaves the integers
  below \<open>2\<^sup>5\<^sup>3\<close> as they are. \<open>rnd_eval\<close> computes a rounding once the binade is known.
\<close>

lemma pow2_powr: "pow2 k = 2 powr of_int k"
  by (simp add: pow2_def powr_real_of_int inverse_eq_divide)

lemma pow2_pos: "0 < pow2 k"
  by (simp add: pow2_powr)

lemma pow2_add: "pow2 (j + k) = pow2 j * pow2 k"
  by (simp add: pow2_powr powr_add)

lemma pow2_mono: "j \<le> k \<Longrightarrow> pow2 j \<le> pow2 k"
  by (simp add: pow2_powr)

lemma rne_of_int: "rne (of_int n) = n"
  by (simp add: rne_def)

lemma rne_mono:
  assumes "x \<le> y"
  shows "rne x \<le> rne y"
proof -
  have fx: "of_int \<lfloor>x\<rfloor> \<le> x" and fx': "x < of_int \<lfloor>x\<rfloor> + 1" by linarith+
  have fy: "of_int \<lfloor>y\<rfloor> \<le> y" and fy': "y < of_int \<lfloor>y\<rfloor> + 1" by linarith+
  have fl: "\<lfloor>x\<rfloor> \<le> \<lfloor>y\<rfloor>" using assms by (rule floor_mono)
  show ?thesis
  proof (cases "\<lfloor>x\<rfloor> = \<lfloor>y\<rfloor>")
    case True
    then show ?thesis using assms by (auto simp: rne_def Let_def)
  next
    case False
    then have "\<lfloor>x\<rfloor> + 1 \<le> \<lfloor>y\<rfloor>" using fl by simp
    moreover have "rne x \<le> \<lfloor>x\<rfloor> + 1" by (simp add: rne_def Let_def)
    moreover have "\<lfloor>y\<rfloor> \<le> rne y" by (simp add: rne_def Let_def)
    ultimately show ?thesis by linarith
  qed
qed

lemma rne_nonneg: "0 \<le> x \<Longrightarrow> 0 \<le> rne x"
  using rne_mono[of 0 x] rne_of_int[of 0] by simp

lemma binade_bounds:
  assumes "0 < x"
  shows "x < pow2 (binade x + 1)" and "- 1022 < binade x \<Longrightarrow> pow2 (binade x) \<le> x"
proof -
  define k where "k = \<lfloor>log 2 x\<rfloor>"
  have k: "2 powr of_int k \<le> x \<and> x < 2 powr (of_int k + 1)"
    using floor_log_eq_powr_iff[of x 2 k] assms by (simp add: k_def)
  have b: "binade x = max k (- 1022)" using assms by (simp add: binade_def k_def)
  have "x < pow2 (k + 1)" using k by (simp add: pow2_powr)
  also have "pow2 (k + 1) \<le> pow2 (binade x + 1)" by (rule pow2_mono) (simp add: b)
  finally show "x < pow2 (binade x + 1)" .
  show "pow2 (binade x) \<le> x" if "- 1022 < binade x"
  proof -
    have "binade x = k" using that b by (simp add: max_def split: if_splits)
    then show ?thesis using k by (simp add: pow2_powr)
  qed
qed

lemma binade_mono:
  assumes "0 < x" and "x \<le> y"
  shows "binade x \<le> binade y"
proof -
  have "log 2 x \<le> log 2 y" using assms by simp
  then have "\<lfloor>log 2 x\<rfloor> \<le> \<lfloor>log 2 y\<rfloor>" by (rule floor_mono)
  then show ?thesis using assms by (simp add: binade_def)
qed

lemma rnd_upper:
  assumes "0 < x"
  shows "rnd x \<le> pow2 (binade x + 1)"
proof -
  define u where "u = pow2 (binade x - 52)"
  have u: "0 < u" by (simp add: u_def pow2_pos)
  have p53: "pow2 53 = 2 ^ 53" by (simp add: pow2_def)
  have e: "pow2 (binade x + 1) = pow2 53 * u"
    using pow2_add[of 53 "binade x - 52"] by (simp add: u_def add.commute)
  have "x < pow2 (binade x + 1)" using binade_bounds(1)[OF assms] .
  then have "x / u \<le> pow2 53" using u by (simp add: e pos_divide_le_eq)
  then have "x / u \<le> of_int (2 ^ 53)" by (simp add: p53)
  then have "rne (x / u) \<le> 2 ^ 53" using rne_mono rne_of_int by metis
  then have "real_of_int (rne (x / u)) \<le> real_of_int (2 ^ 53)" by (simp only: of_int_le_iff)
  then have "of_int (rne (x / u)) \<le> (2 ^ 53 :: real)" by simp
  then have "of_int (rne (x / u)) * u \<le> 2 ^ 53 * u" using u by simp
  also have "2 ^ 53 * u = pow2 (binade x + 1)" by (simp only: e p53)
  finally show ?thesis using assms by (simp add: rnd_def u_def)
qed

lemma rnd_lower:
  assumes "0 < x" and "- 1022 < binade x"
  shows "pow2 (binade x) \<le> rnd x"
proof -
  define u where "u = pow2 (binade x - 52)"
  have u: "0 < u" by (simp add: u_def pow2_pos)
  have p52: "pow2 52 = 2 ^ 52" by (simp add: pow2_def)
  have e: "pow2 (binade x) = pow2 52 * u"
    using pow2_add[of 52 "binade x - 52"] by (simp add: u_def)
  have "pow2 52 * u \<le> x" using binade_bounds(2)[OF assms] e by simp
  then have "pow2 52 \<le> x / u" using u by (simp add: pos_le_divide_eq)
  then have "of_int (2 ^ 52) \<le> x / u" by (simp add: p52)
  then have "2 ^ 52 \<le> rne (x / u)" using rne_mono rne_of_int by metis
  then have "real_of_int (2 ^ 52) \<le> real_of_int (rne (x / u))" by (simp only: of_int_le_iff)
  then have "(2 ^ 52 :: real) \<le> of_int (rne (x / u))" by simp
  then have "2 ^ 52 * u \<le> of_int (rne (x / u)) * u" using u by simp
  moreover have "2 ^ 52 * u = pow2 (binade x)" by (simp only: e p52)
  ultimately show ?thesis using assms by (simp add: rnd_def u_def)
qed

lemma rnd_nonneg:
  assumes "0 \<le> x"
  shows "0 \<le> rnd x"
proof (cases "x = 0")
  case True
  then show ?thesis by (simp add: rnd_def)
next
  case False
  have "0 \<le> x / pow2 (binade x - 52)" using assms pow2_pos[of "binade x - 52"] by simp
  then have "0 \<le> rne (x / pow2 (binade x - 52))" by (rule rne_nonneg)
  then show ?thesis using False pow2_pos[of "binade x - 52"] by (simp add: rnd_def)
qed

lemma rnd_mono:
  assumes "0 \<le> x" and "x \<le> y"
  shows "rnd x \<le> rnd y"
proof (cases "x = 0")
  case True
  then show ?thesis using rnd_nonneg[of y] assms by (simp add: rnd_def)
next
  case False
  then have x: "0 < x" and y: "0 < y" using assms by simp_all
  have bm: "binade x \<le> binade y" using binade_mono[OF x assms(2)] .
  show ?thesis
  proof (cases "binade x = binade y")
    case True
    define u where "u = pow2 (binade x - 52)"
    have u: "0 < u" by (simp add: u_def pow2_pos)
    have "x / u \<le> y / u" using assms(2) u by (simp add: divide_right_mono)
    then have "rne (x / u) \<le> rne (y / u)" by (rule rne_mono)
    then have "(of_int (rne (x / u)) :: real) \<le> of_int (rne (y / u))" by simp
    then have "of_int (rne (x / u)) * u \<le> of_int (rne (y / u)) * u" using u by simp
    then show ?thesis using x y True by (simp add: rnd_def u_def)
  next
    case False
    then have lt: "binade x + 1 \<le> binade y" using bm by simp
    have "- 1022 \<le> binade x" by (simp add: binade_def)
    then have n: "- 1022 < binade y" using lt by simp
    have "rnd x \<le> pow2 (binade x + 1)" by (rule rnd_upper[OF x])
    also have "\<dots> \<le> pow2 (binade y)" by (rule pow2_mono[OF lt])
    also have "\<dots> \<le> rnd y" by (rule rnd_lower[OF y n])
    finally show ?thesis .
  qed
qed

lemma rnd_of_int:
  assumes "\<bar>n\<bar> < 2 ^ 53"
  shows "rnd (of_int n) = of_int n"
proof (cases "n = 0")
  case True
  then show ?thesis by (simp add: rnd_def)
next
  case False
  define x :: real where "x = \<bar>of_int n\<bar>"
  have x1: "1 \<le> x" using False by (simp add: x_def)
  have x2: "x < 2 ^ 53"
  proof -
    have "real_of_int \<bar>n\<bar> < real_of_int (2 ^ 53)" using assms by (simp only: of_int_less_iff)
    then show ?thesis by (simp add: x_def)
  qed
  define k where "k = \<lfloor>log 2 x\<rfloor>"
  have "0 \<le> log 2 x" using x1 by simp
  then have k0: "0 \<le> k" by (simp add: k_def)
  have "2 powr of_int k \<le> x"
    using floor_log_eq_powr_iff[of x 2 k] x1 by (simp add: k_def)
  then have "(2::real) powr of_int k < 2 powr 53" using x2 by simp
  then have "real_of_int k < 53" by (simp only: powr_less_cancel_iff)
  then have k1: "k \<le> 52" by simp
  have b: "binade (of_int n) = k" using k0 by (simp add: binade_def k_def x_def)
  define j where "j = nat (52 - k)"
  have u: "pow2 (k - 52) = 1 / 2 ^ j" using k1
    by (cases "k = 52") (simp_all add: pow2_def j_def)
  have "of_int n / pow2 (k - 52) = of_int (n * 2 ^ j)" by (simp add: u)
  then have "rne (of_int n / pow2 (k - 52)) = n * 2 ^ j" by (simp only: rne_of_int)
  then show ?thesis using False by (simp add: rnd_def b u)
qed

lemma rnd_eval:
  assumes "x \<noteq> 0" and "pow2 e \<le> \<bar>x\<bar>" and "\<bar>x\<bar> < pow2 (e + 1)" and "- 1022 \<le> e"
  shows "rnd x = of_int (rne (x / pow2 (e - 52))) * pow2 (e - 52)"
proof -
  have "\<lfloor>log 2 \<bar>x\<bar>\<rfloor> = e"
    using floor_log_eq_powr_iff[of "\<bar>x\<bar>" 2 e] assms by (simp add: pow2_powr)
  then have "binade x = e" using assms(4) by (simp add: binade_def)
  then show ?thesis using assms(1) by (simp add: rnd_def)
qed

section \<open>Properties of \<open>PhraseCounter.calculate\<close>\<close>

lemma js_rem_nonneg:
  assumes a: "0 \<le> a" and b: "0 < b"
  shows "0 \<le> js_rem a b \<and> js_rem a b < b"
proof -
  have q: "0 \<le> a / b" using a b by simp
  have t: "js_trunc (a / b) = \<lfloor>a / b\<rfloor>" using q by (simp add: js_trunc_def)
  have lo: "of_int \<lfloor>a / b\<rfloor> \<le> a / b" by simp
  have hi: "a / b < of_int \<lfloor>a / b\<rfloor> + 1" by linarith
  have lo': "of_int \<lfloor>a / b\<rfloor> * b \<le> a"
    using lo b by (simp only: pos_le_divide_eq)
  have hi': "a < (of_int \<lfloor>a / b\<rfloor> + 1) * b"
    using hi b by (simp only: pos_divide_less_eq)
  show ?thesis using lo' hi' by (simp add: js_rem_def t algebra_simps)
qed

lemma js_rem_abs:
  assumes b: "0 < b"
  shows "\<bar>js_rem a b\<bar> < b"
proof (cases "0 \<le> a")
  case True
  with b js_rem_nonneg[of a b] show ?thesis by simp
next
  case False
  then have neg: "a / b < 0" using b by (simp add: divide_neg_pos)
  have t: "js_trunc (a / b) = \<lceil>a / b\<rceil>" using neg by (simp add: js_trunc_def)
  have hi: "a / b \<le> of_int \<lceil>a / b\<rceil>" by simp
  have lo: "of_int \<lceil>a / b\<rceil> - 1 < a / b" by linarith
  have hi': "a \<le> of_int \<lceil>a / b\<rceil> * b" using hi b by (simp only: pos_divide_le_eq)
  have lo': "(of_int \<lceil>a / b\<rceil> - 1) * b < a" using lo b by (simp only: pos_less_divide_eq)
  show ?thesis using lo' hi' by (simp add: js_rem_def t algebra_simps abs_less_iff)
qed

text \<open>Counting the position in the phrase: the floor of a remainder by 32, plus one, is exact.\<close>

lemma phraseCount_exact: "fadd (of_int \<lfloor>js_rem x 32\<rfloor>) 1 = of_int \<lfloor>js_rem x 32\<rfloor> + 1"
proof -
  have "\<bar>js_rem x 32\<bar> < 32" by (rule js_rem_abs) simp
  then have "- 32 \<le> js_rem x 32" and "js_rem x 32 < 32" by (simp_all add: abs_less_iff)
  then have "- 32 \<le> \<lfloor>js_rem x 32\<rfloor>" and "\<lfloor>js_rem x 32\<rfloor> < 32"
    by (simp_all add: le_floor_iff floor_less_iff)
  then have "\<bar>\<lfloor>js_rem x 32\<rfloor> + 1\<bar> \<le> 33" by linarith
  then have "\<bar>\<lfloor>js_rem x 32\<rfloor> + 1\<bar> < 2 ^ 53" by simp
  then have "rnd (of_int (\<lfloor>js_rem x 32\<rfloor> + 1)) = of_int (\<lfloor>js_rem x 32\<rfloor> + 1)"
    by (rule rnd_of_int)
  then show ?thesis by (simp add: fadd_def)
qed

lemma rnd_32: "rnd 32 = 32"
  using rnd_of_int[of 32] by simp

text \<open>The path through \<open>calculate\<close> once both early returns are passed.\<close>

lemma calculate_normal:
  assumes "0 < beatsPerMinute" and "\<not> (truthy timeSignature \<and> timeSignature \<noteq> Some 4)"
  shows "calculate now beatsPerMinute progressMs referenceTimestamp timeSignature isPlayingArg =
    (let elapsed = (if (case isPlayingArg of None \<Rightarrow> True | Some b \<Rightarrow> b)
                    then fsub now (if referenceTimestamp > 0 then referenceTimestamp else now)
                    else 0);
         beatDuration = fdiv 60000 beatsPerMinute;
         totalBeats = fdiv (fadd progressMs elapsed) beatDuration;
         positionInPhrase = js_rem totalBeats 32
     in \<lparr>beatsRemaining = fsub 32 positionInPhrase,
         timeRemainingSeconds = fdiv (fmul (fsub 32 positionInPhrase) beatDuration) 1000,
         phraseCount = of_int \<lfloor>positionInPhrase\<rfloor> + 1\<rparr>)"
proof -
  have "\<not> beatsPerMinute \<le> 0" using assms(1) by simp
  then show ?thesis
    unfolding calculate_def Let_def phraseCount_exact using assms(2)
    by (simp only: if_False if_True)
qed

text \<open>
  Claim C2, as stated: for every input with \<open>timeSignature \<noteq> 4\<close>, whatever the tempo,
  \<open>calculate\<close> returns \<open>(0, 0, 0)\<close>. The test \<open>bpm \<le> 0\<close> comes first in the source: with
  \<open>bpm = 0\<close> and a 3/4 signature the result is the zero-tempo default \<open>(32, 0, 1)\<close>.
\<close>

theorem calculate_non_four_counterexample:
  "calculate 5000 0 0 4000 (Some 3) (Some True) =
     \<lparr>beatsRemaining = 32, timeRemainingSeconds = 0, phraseCount = 1\<rparr> \<and>
   calculate 5000 0 0 4000 (Some 3) (Some True) \<noteq>
     \<lparr>beatsRemaining = 0, timeRemainingSeconds = 0, phraseCount = 0\<rparr>"
  by (simp add: calculate_def)

text \<open>
  Claim C2, amended: for every input with \<open>bpm > 0\<close> and a time signature that is defined,
  non-zero and different from 4 (any progress, reference timestamp and play state),
  \<open>calculate\<close> returns exactly \<open>(0, 0, 0)\<close>.
\<close>

theorem calculate_non_four_sentinel:
  assumes "0 < beatsPerMinute" and "t \<noteq> 0" and "t \<noteq> 4"
  shows "calculate now beatsPerMinute progressMs referenceTimestamp (Some t) isPlayingArg =
           \<lparr>beatsRemaining = 0, timeRemainingSeconds = 0, phraseCount = 0\<rparr>"
  using assms by (simp add: calculate_def truthy_def Let_def)

theorem calculate_non_four_sentinel_witness:
  "(0::real) < 120 \<and> (3::real) \<noteq> 0 \<and> (3::real) \<noteq> 4 \<and>
   calculate 5000 120 0 4000 (Some 3) (Some True) =
     \<lparr>beatsRemaining = 0, timeRemainingSeconds = 0, phraseCount = 0\<rparr>"
  using calculate_non_four_sentinel [of 120 3 5000 0 4000 "Some True"] by simp


text \<open>
  Rounding decides the result. At 168 beats per minute and 2500 ms, paused, the exact
  quotient is 7 beats; the beat duration \<open>60000 / 168\<close> rounds up, the quotient falls just
  below 7, and the count is 7 where exact arithmetic would give 8.
\<close>

lemma calculate_example_168:
  "calculate 0 168 2500 0 (Some 4) (Some False) =
     \<lparr>beatsRemaining = 25,
      timeRemainingSeconds = 5026338869833143 / 562949953421312,
      phraseCount = 7\<rparr>"
proof -
  have h1: "fadd 2500 0 = 2500" using rnd_of_int[of 2500] by (simp add: fadd_def)
  have h2: "fdiv 60000 168 = 6282923587291429 / 17592186044416"
    by (simp add: fdiv_def rnd_eval[of _ 8] pow2_def rne_def Let_def)
  have h3: "fdiv 2500 (6282923587291429 / 17592186044416) = 7881299347898367 / 1125899906842624"
    by (simp add: fdiv_def rnd_eval[of _ 2] pow2_def rne_def Let_def)
  have h4: "js_rem (7881299347898367 / 1125899906842624) 32 = 7881299347898367 / 1125899906842624"
    by (simp add: js_rem_def js_trunc_def)
  have h5: "fsub 32 (7881299347898367 / 1125899906842624) = 25"
    by (simp add: fsub_def rnd_eval[of _ 4] pow2_def rne_def Let_def)
  have h6: "fmul 25 (6282923587291429 / 17592186044416) = 4908534052571429 / 549755813888"
    by (simp add: fmul_def rnd_eval[of _ 13] pow2_def rne_def Let_def)
  have h7: "fdiv (4908534052571429 / 549755813888) 1000 = 5026338869833143 / 562949953421312"
    by (simp add: fdiv_def rnd_eval[of _ 3] pow2_def rne_def Let_def)
  have h8: "\<lfloor>7881299347898367 / 1125899906842624 :: real\<rfloor> = 6" by simp
  have h9: "fadd 6 1 = 7" using rnd_of_int[of 7] by (simp add: fadd_def)
  show ?thesis
    by (simp add: calculate_def truthy_def Let_def h1 h2 h3 h4 h5 h6 h7 h8 h9)
qed

text \<open>
  At 80000 ms the exact quotient is 224 beats, seven whole phrases; the rounded one falls
  just below, so the 32nd beat of the phrase is counted and \<open>2\<^sup>-\<^sup>4\<^sup>5\<close> of a beat remains.
\<close>

lemma calculate_example_168_late:
  "calculate 0 168 80000 0 (Some 4) (Some False) =
     \<lparr>beatsRemaining = 1 / 35184372088832,
      timeRemainingSeconds = 6433713753386423 / 633825300114114700748351602688,
      phraseCount = 32\<rparr>"
proof -
  have h1: "fadd 80000 0 = 80000" using rnd_of_int[of 80000] by (simp add: fadd_def)
  have h2: "fdiv 60000 168 = 6282923587291429 / 17592186044416"
    by (simp add: fdiv_def rnd_eval[of _ 8] pow2_def rne_def Let_def)
  have h3: "fdiv 80000 (6282923587291429 / 17592186044416) = 7881299347898367 / 35184372088832"
    by (simp add: fdiv_def rnd_eval[of _ 7] pow2_def rne_def Let_def)
  have h4: "js_rem (7881299347898367 / 35184372088832) 32 = 1125899906842623 / 35184372088832"
    by (simp add: js_rem_def js_trunc_def)
  have h5: "fsub 32 (1125899906842623 / 35184372088832) = 1 / 35184372088832"
    by (simp add: fsub_def rnd_eval[of _ "- 45"] pow2_def rne_def Let_def)
  have h6: "fmul (1 / 35184372088832) (6282923587291429 / 17592186044416)
              = 6282923587291429 / 618970019642690137449562112"
    by (simp add: fmul_def rnd_eval[of _ "- 37"] pow2_def rne_def Let_def)
  have h7: "fdiv (6282923587291429 / 618970019642690137449562112) 1000
              = 6433713753386423 / 633825300114114700748351602688"
    by (simp add: fdiv_def rnd_eval[of _ "- 47"] pow2_def rne_def Let_def)
  have h8: "\<lfloor>1125899906842623 / 35184372088832 :: real\<rfloor> = 31" by simp
  have h9: "fadd 31 1 = 32" using rnd_of_int[of 32] by (simp add: fadd_def)
  show ?thesis
    by (simp add: calculate_def truthy_def Let_def h1 h2 h3 h4 h5 h6 h7 h8 h9)
qed


text \<open>
  Claim C4: for every \<open>bpm \<le> 0\<close>, whatever the other arguments, \<open>calculate\<close> returns
  exactly \<open>(32, 0, 1)\<close>.
\<close>

theorem calculate_bpm_nonpositive:
  assumes "beatsPerMinute \<le> 0"
  shows "calculate now beatsPerMinute progressMs referenceTimestamp timeSignature isPlayingArg =
           \<lparr>beatsRemaining = 32, timeRemainingSeconds = 0, phraseCount = 1\<rparr>"
  using assms by (simp add: calculate_def)

theorem calculate_bpm_nonpositive_witness:
  "(- 120::real) \<le> 0 \<and>
   calculate 5000 (- 120) 1000 4000 (Some 3) (Some False) =
     \<lparr>beatsRemaining = 32, timeRemainingSeconds = 0, phraseCount = 1\<rparr>"
  using calculate_bpm_nonpositive [of "- 120" 5000 1000 4000 "Some 3" "Some False"] by simp

text \<open>
  Claim C10: with \<open>bpm > 0\<close> and a time signature of 0, \<open>calculate\<close> does not return the
  sentinel \<open>(0, 0, 0)\<close>: the guard tests the signature for truthiness, so 0 is treated as
  an undefined or 4/4 signature and the 32-beat phrase result is computed.
\<close>

theorem calculate_zero_signature:
  assumes "0 < beatsPerMinute"
  shows "calculate now beatsPerMinute progressMs referenceTimestamp (Some 0) isPlayingArg =
           calculate now beatsPerMinute progressMs referenceTimestamp None isPlayingArg \<and>
         calculate now beatsPerMinute progressMs referenceTimestamp (Some 0) isPlayingArg =
           calculate now beatsPerMinute progressMs referenceTimestamp (Some 4) isPlayingArg \<and>
         calculate now beatsPerMinute progressMs referenceTimestamp (Some 0) isPlayingArg \<noteq>
           \<lparr>beatsRemaining = 0, timeRemainingSeconds = 0, phraseCount = 0\<rparr>"
proof -
  have a: "\<not> (truthy (Some 0) \<and> Some (0::real) \<noteq> Some 4)" by (simp add: truthy_def)
  have b: "\<not> (truthy None \<and> (None::real option) \<noteq> Some 4)" by (simp add: truthy_def)
  have c: "\<not> (truthy (Some 4) \<and> Some (4::real) \<noteq> Some 4)" by simp
  have nz: "fsub 32 (js_rem x 32) \<noteq> 0 \<or> real_of_int \<lfloor>js_rem x 32\<rfloor> + 1 \<noteq> 0" for x
  proof (cases "real_of_int \<lfloor>js_rem x 32\<rfloor> + 1 = 0")
    case False
    then show ?thesis by simp
  next
    case True
    then have "\<lfloor>js_rem x 32\<rfloor> = - 1" by linarith
    then have "js_rem x 32 < 0" by (simp add: floor_eq_iff)
    then have "rnd 32 \<le> rnd (32 - js_rem x 32)" by (intro rnd_mono) simp_all
    then have "32 \<le> fsub 32 (js_rem x 32)" by (simp add: fsub_def rnd_32)
    then show ?thesis by simp
  qed
  show ?thesis
    unfolding calculate_normal[OF assms a] calculate_normal[OF assms b] calculate_normal[OF assms c]
    using nz by (auto simp: Let_def)
qed

theorem calculate_zero_signature_witness:
  "(0::real) < 168 \<and>
   calculate 0 168 2500 0 (Some 0) (Some False) =
     \<lparr>beatsRemaining = 25,
      timeRemainingSeconds = 5026338869833143 / 562949953421312,
      phraseCount = 7\<rparr> \<and>
   calculate 0 168 2500 0 (Some 0) (Some False) = calculate 0 168 2500 0 None (Some False) \<and>
   calculate 0 168 2500 0 (Some 0) (Some False) \<noteq>
     \<lparr>beatsRemaining = 0, timeRemainingSeconds = 0, phraseCount = 0\<rparr>"
proof -
  have b: "(0::real) < 168" by simp
  note t = calculate_zero_signature [OF b, of 0 2500 0 "Some False"]
  have e4: "calculate 0 168 2500 0 (Some 0) (Some False) =
            calculate 0 168 2500 0 (Some 4) (Some False)"
    by (rule conjunct1[OF conjunct2[OF t]])
  show ?thesis
  proof (intro conjI)
    show "(0::real) < 168" by simp
    show "calculate 0 168 2500 0 (Some 0) (Some False) =
     \<lparr>beatsRemaining = 25,
      timeRemainingSeconds = 5026338869833143 / 562949953421312,
      phraseCount = 7\<rparr>"
      unfolding e4 by (rule calculate_example_168)
    show "calculate 0 168 2500 0 (Some 0) (Some False) =
          calculate 0 168 2500 0 None (Some False)"
      by (rule conjunct1[OF t])
    show "calculate 0 168 2500 0 (Some 0) (Some False) \<noteq>
     \<lparr>beatsRemaining = 0, timeRemainingSeconds = 0, phraseCount = 0\<rparr>"
      by (rule conjunct2[OF conjunct2[OF t]])
  qed
qed

section \<open>Properties of \<open>writeFrame\<close>\<close>

text \<open>The loop appends one row write for every index at which the two frames differ.\<close>

lemma writeFrame_loop_eq:
  "writeFrame_loop i n c p buf =
     buf @ map (\<lambda>j. rowWrite j (rowAt c j)) (filter (\<lambda>j. rowAt c j \<noteq> rowAt p j) [i..<n])"
proof (induction i n c p buf rule: writeFrame_loop.induct)
  case (1 i maxRows clippedLines prevFrame buffer)
  show ?case
  proof (cases "i < maxRows")
    case True
    then have u: "[i..<maxRows] = i # [i + 1..<maxRows]" by (simp add: upt_conv_Cons)
    show ?thesis
      using True "1.IH"[OF True refl refl]
      by (subst writeFrame_loop.simps) (simp add: u Let_def)
  next
    case False
    then show ?thesis by (subst writeFrame_loop.simps) simp
  qed
qed

lemma writeFrame_eq:
  "writeFrame rows r lines =
     (r\<lparr>previousFrame := take (orDefault rows 24) lines\<rparr>,
      [concat (cursorHome #
         map (\<lambda>i. rowWrite i (rowAt (take (orDefault rows 24) lines) i))
           (filter (\<lambda>i. rowAt (take (orDefault rows 24) lines) i \<noteq> rowAt (previousFrame r) i)
              [0..<max (length (take (orDefault rows 24) lines)) (length (previousFrame r))]))])"
  by (simp add: writeFrame_def Let_def writeFrame_loop_eq)

lemma orDefault_positive: "0 < d \<Longrightarrow> 0 < orDefault v d"
  by (simp add: orDefault_def split: option.splits)

text \<open>
  Writing the same lines twice at the same terminal height: no row differs, and the second
  call still writes the cursor-home sequence, which is pushed before the loop.
\<close>

lemma writeFrame_repeat:
  "snd (writeFrame rows (fst (writeFrame rows r lines)) lines) = [cursorHome]"
  by (simp add: writeFrame_eq)

lemma unitsWritten_cursorHome: "unitsWritten [cursorHome] = 3"
  by (simp add: unitsWritten_def cursorHome_def ESC_def js_def)

text \<open>
  Claim C1 says that the second of two identical calls writes zero bytes. On the code the
  second call writes the three characters \<open>ESC [ H\<close>: the buffer starts with the
  cursor-home sequence, so the guard \<open>buffer.length > 0\<close> before the write never fails.
  Here: one row \<open>a\<close> written twice on a terminal of 24 rows.
\<close>

theorem writeFrame_identical_frame_writes_cursor_home:
  "snd (writeFrame (Some 24) (fst (writeFrame (Some 24) newTerminalRenderer [js ''a''])) [js ''a''])
     = [ESC @ js ''[H''] \<and>
   unitsWritten
     (snd (writeFrame (Some 24) (fst (writeFrame (Some 24) newTerminalRenderer [js ''a''])) [js ''a'']))
     = 3"
  by (simp add: writeFrame_repeat unitsWritten_cursorHome) (simp add: cursorHome_def)

text \<open>
  Claim C5: for frames \<open>A\<close> and \<open>B\<close> no longer than the terminal height, writing \<open>A\<close>, then
  \<open>B\<close>, then \<open>A\<close> again with the same renderer makes the third call emit, after the
  cursor-home sequence, a row write for exactly the indices at which \<open>A\<close> and \<open>B\<close> differ
  (the shorter frame padded with empty rows), in increasing order, and for no other index.
\<close>

theorem writeFrame_round_trip:
  assumes "length A \<le> orDefault rows 24" and "length B \<le> orDefault rows 24"
    and "r1 = fst (writeFrame rows r A)"
    and "r2 = fst (writeFrame rows r1 B)"
  shows "snd (writeFrame rows r2 A) =
     [concat (cursorHome # map (\<lambda>i. rowWrite i (rowAt A i))
        (filter (\<lambda>i. rowAt A i \<noteq> rowAt B i) [0..<max (length A) (length B)]))]"
  using assms by (simp add: writeFrame_eq)

theorem writeFrame_round_trip_witness:
  "length [js ''x'', js ''y'', js ''z''] \<le> orDefault (Some 5) 24 \<and>
   length [js ''x'', js ''q''] \<le> orDefault (Some 5) 24 \<and>
   snd (writeFrame (Some 5)
          (fst (writeFrame (Some 5)
             (fst (writeFrame (Some 5) newTerminalRenderer [js ''x'', js ''y'', js ''z'']))
             [js ''x'', js ''q'']))
          [js ''x'', js ''y'', js ''z''])
     = [ESC @ js ''[H'' @ ESC @ js ''[2;1Hy'' @ ESC @ js ''[0K'' @ ESC @ js ''[3;1Hz'' @ ESC @ js ''[0K'']"
  using writeFrame_round_trip [of "[js ''x'', js ''y'', js ''z'']" "Some 5" "[js ''x'', js ''q'']"
      "fst (writeFrame (Some 5) newTerminalRenderer [js ''x'', js ''y'', js ''z''])"
      newTerminalRenderer
      "fst (writeFrame (Some 5)
             (fst (writeFrame (Some 5) newTerminalRenderer [js ''x'', js ''y'', js ''z'']))
             [js ''x'', js ''q''])"]
  by (simp add: orDefault_def rowAt_def rowWrite_def cursorHome_def CLEAR_TO_END_def
        decimal.simps js_def ESC_def upt_rec)

text \<open>
  Claim C6, as stated: whatever was written before, no cursor-positioning sequence targets a
  row beyond the terminal height and the stored baseline never holds more rows than the
  terminal height. The height is read at every call and the loop runs to the longer of the
  new frame and the stored one: after three rows were written on a terminal of 3 rows, a call
  on a terminal of 2 rows (no \<open>resetFrameCache\<close> in between) finds a baseline of 3 rows and
  writes to row 3.
\<close>

theorem writeFrame_stale_baseline_counterexample:
  "length (previousFrame (fst (writeFrame (Some 3) newTerminalRenderer
      [js ''a'', js ''b'', js ''c'']))) = 3 \<and>
   orDefault (Some 2) 24 = 2 \<and>
   snd (writeFrame (Some 2)
          (fst (writeFrame (Some 3) newTerminalRenderer [js ''a'', js ''b'', js ''c'']))
          [js ''a''])
     = [ESC @ js ''[H'' @ ESC @ js ''[2;1H'' @ ESC @ js ''[0K'' @ ESC @ js ''[3;1H'' @ ESC @ js ''[0K'']"
  by (simp add: writeFrame_eq newTerminalRenderer_def orDefault_def rowAt_def rowWrite_def
        cursorHome_def CLEAR_TO_END_def decimal.simps js_def ESC_def upt_rec)

text \<open>
  Claim C6, amended: for every row list and every renderer state, the frame is clipped to
  the terminal height before diffing and the baseline stored by the call holds at most
  terminal-height rows; every row write targets a row \<open>i + 1\<close> no greater than the larger of
  the terminal height and the length of the baseline found by the call. So when that
  baseline holds at most terminal-height rows (a new or reset renderer, whose baseline is
  empty, or a previous \<open>writeFrame\<close> at a height no larger than the current one), every
  row write targets a row no greater than the terminal height, as does the cursor-home
  sequence (row 1).
\<close>

theorem writeFrame_within_height:
  "previousFrame (fst (writeFrame rows r lines)) = take (orDefault rows 24) lines \<and>
   length (previousFrame (fst (writeFrame rows r lines))) \<le> orDefault rows 24 \<and>
   snd (writeFrame rows r lines) =
     [concat (cursorHome #
        map (\<lambda>i. rowWrite i (rowAt (take (orDefault rows 24) lines) i))
          (filter (\<lambda>i. rowAt (take (orDefault rows 24) lines) i \<noteq> rowAt (previousFrame r) i)
             [0..<max (length (take (orDefault rows 24) lines)) (length (previousFrame r))]))] \<and>
   1 \<le> orDefault rows 24 \<and>
   (\<forall>i \<in> set (filter (\<lambda>i. rowAt (take (orDefault rows 24) lines) i \<noteq> rowAt (previousFrame r) i)
             [0..<max (length (take (orDefault rows 24) lines)) (length (previousFrame r))]).
      i + 1 \<le> max (orDefault rows 24) (length (previousFrame r))) \<and>
   (length (previousFrame r) \<le> orDefault rows 24 \<longrightarrow>
      (\<forall>i \<in> set (filter (\<lambda>i. rowAt (take (orDefault rows 24) lines) i \<noteq> rowAt (previousFrame r) i)
             [0..<max (length (take (orDefault rows 24) lines)) (length (previousFrame r))]).
         i + 1 \<le> orDefault rows 24)) \<and>
   previousFrame newTerminalRenderer = [] \<and>
   previousFrame (resetFrameCache r) = [] \<and>
   (orDefault rows0 24 \<le> orDefault rows 24 \<longrightarrow>
      length (previousFrame (fst (writeFrame rows0 r0 lines0))) \<le> orDefault rows 24)"
proof -
  have "0 < orDefault rows 24" by (rule orDefault_positive) simp
  then have one: "1 \<le> orDefault rows 24" by simp
  show ?thesis
    using one
    by (auto simp add: writeFrame_eq newTerminalRenderer_def resetFrameCache_def)
qed

text \<open>
  A baseline of two rows stored at height 2, then four lines written at height 3: rows 1 and
  3 are rewritten and three rows are stored. At the stale state of the counterexample the
  call still stores a clipped baseline.
\<close>

theorem writeFrame_within_height_witness:
  "previousFrame (fst (writeFrame (Some 2) newTerminalRenderer [js ''a'', js ''b'', js ''c'']))
     = [js ''a'', js ''b''] \<and>
   length [js ''a'', js ''b''] \<le> orDefault (Some 3) 24 \<and>
   snd (writeFrame (Some 3)
          (fst (writeFrame (Some 2) newTerminalRenderer [js ''a'', js ''b'', js ''c'']))
          [js ''x'', js ''b'', js ''y'', js ''z''])
     = [ESC @ js ''[H'' @ ESC @ js ''[1;1Hx'' @ ESC @ js ''[0K'' @ ESC @ js ''[3;1Hy'' @ ESC @ js ''[0K''] \<and>
   previousFrame (fst (writeFrame (Some 3)
          (fst (writeFrame (Some 2) newTerminalRenderer [js ''a'', js ''b'', js ''c'']))
          [js ''x'', js ''b'', js ''y'', js ''z'']))
     = [js ''x'', js ''b'', js ''y''] \<and>
   previousFrame (fst (writeFrame (Some 2)
          (fst (writeFrame (Some 3) newTerminalRenderer [js ''a'', js ''b'', js ''c'']))
          [js ''a'']))
     = [js ''a'']"
proof -
  note again = writeFrame_within_height [of "Some 3"
      "fst (writeFrame (Some 2) newTerminalRenderer [js ''a'', js ''b'', js ''c''])"
      "[js ''x'', js ''b'', js ''y'', js ''z'']"
      "Some 2" newTerminalRenderer "[js ''a'', js ''b'', js ''c'']"]
  note stale = writeFrame_within_height [of "Some 2"
      "fst (writeFrame (Some 3) newTerminalRenderer [js ''a'', js ''b'', js ''c''])"
      "[js ''a'']" "Some 3" newTerminalRenderer "[]"]
  have f1: "fst (writeFrame (Some 2) newTerminalRenderer [js ''a'', js ''b'', js ''c''])
              = \<lparr>previousFrame = [js ''a'', js ''b'']\<rparr>"
    by (simp add: writeFrame_eq newTerminalRenderer_def orDefault_def)
  have f2: "writeFrame (Some 3) \<lparr>previousFrame = [js ''a'', js ''b'']\<rparr>
              [js ''x'', js ''b'', js ''y'', js ''z'']
            = (\<lparr>previousFrame = [js ''x'', js ''b'', js ''y'']\<rparr>,
               [ESC @ js ''[H'' @ ESC @ js ''[1;1Hx'' @ ESC @ js ''[0K'' @ ESC @ js ''[3;1Hy''
                  @ ESC @ js ''[0K''])"
    by (simp add: writeFrame_eq orDefault_def rowAt_def rowWrite_def cursorHome_def
          CLEAR_TO_END_def decimal.simps js_def ESC_def upt_rec)
  have f3: "fst (writeFrame (Some 3) newTerminalRenderer [js ''a'', js ''b'', js ''c''])
              = \<lparr>previousFrame = [js ''a'', js ''b'', js ''c'']\<rparr>"
    by (simp add: writeFrame_eq newTerminalRenderer_def orDefault_def)
  have h3: "orDefault (Some 3) 24 = 3" by (simp add: orDefault_def)
  have a1: "previousFrame (fst (writeFrame (Some 3)
          (fst (writeFrame (Some 2) newTerminalRenderer [js ''a'', js ''b'', js ''c'']))
          [js ''x'', js ''b'', js ''y'', js ''z'']))
     = [js ''x'', js ''b'', js ''y'']"
    unfolding conjunct1[OF again] h3 by simp
  have s1: "previousFrame (fst (writeFrame (Some 2)
          (fst (writeFrame (Some 3) newTerminalRenderer [js ''a'', js ''b'', js ''c'']))
          [js ''a'']))
     = [js ''a'']"
    unfolding conjunct1[OF stale] by (simp add: orDefault_def)
  show ?thesis
    by (simp add: a1 s1) (simp add: f1 f2 h3)
qed

section \<open>Properties of \<open>renderTrainBoard\<close>\<close>

subsection \<open>The progress bar\<close>

lemma Math_round_le:
  assumes "x \<le> of_int w"
  shows "Math_round x \<le> w"
proof -
  have "x + 1 / 2 < of_int w + 1" using assms by simp
  then have "\<lfloor>x + 1 / 2\<rfloor> \<le> w" by (simp only: floor_le_iff)
  then show ?thesis by (simp add: Math_round_def)
qed

lemma Math_round_nonneg:
  assumes "0 \<le> x"
  shows "0 \<le> Math_round x"
  using assms by (simp add: Math_round_def)

lemma percent_range: "0 \<le> percent c d \<and> percent c d \<le> 1"
  by (simp add: percent_def)

lemma barWidth_range: "40 \<le> barWidth env \<and> barWidth env \<le> 60"
  by (simp add: barWidth_def)

lemma barWidth_exact: "rnd (of_int (barWidth env)) = of_int (barWidth env)"
proof -
  have "\<bar>barWidth env\<bar> \<le> 60" using barWidth_range[of env] by simp
  then have "\<bar>barWidth env\<bar> < 2 ^ 53" by simp
  then show ?thesis by (rule rnd_of_int)
qed

text \<open>
  Claim C8: for every bar width \<open>\<ge> 1\<close> (a number, so a double) and every playback
  position, the fraction played is clamped to \<open>[0, 1]\<close> and is 0 when \<open>duration_ms \<le> 0\<close>;
  the number of filled cells is 0 when the fraction is 0, the bar width when it is 1, and
  \<open>round (barWidth * percent)\<close>, the product in double precision, when it lies strictly
  between, and it never exceeds the bar width. The width \<open>renderTrainBoard\<close> uses is such a
  number.
\<close>

theorem progress_bar_filled:
  assumes "1 \<le> width"
    and "rnd (of_int width) = of_int width"
    and "pct = percent curMs durationMs"
    and "filled = filledLen width pct"
  shows "0 \<le> pct \<and> pct \<le> 1 \<and>
         (durationMs \<le> 0 \<longrightarrow> pct = 0) \<and>
         (pct = 0 \<longrightarrow> filled = 0) \<and>
         (pct = 1 \<longrightarrow> filled = width) \<and>
         (0 < pct \<and> pct < 1 \<longrightarrow> filled = Math_round (fmul (of_int width) pct)) \<and>
         0 \<le> filled \<and> filled \<le> width \<and>
         1 \<le> barWidth env \<and> rnd (of_int (barWidth env)) = of_int (barWidth env)"
proof -
  have rng: "0 \<le> pct \<and> pct \<le> 1" using percent_range assms(3) by simp
  have zero: "durationMs \<le> 0 \<longrightarrow> pct = 0" by (simp add: assms(3) percent_def)
  have f0: "pct = 0 \<longrightarrow> filled = 0" by (simp add: assms(4) filledLen_def)
  have f1: "pct = 1 \<longrightarrow> filled = width" by (simp add: assms(4) filledLen_def)
  have mid: "filled = Math_round (fmul (of_int width) pct) \<and> 0 \<le> filled \<and> filled \<le> width"
    if p: "0 < pct \<and> pct < 1"
  proof -
    have w: "(0::real) < of_int width" using assms(1) by simp
    have "of_int width * pct < of_int width * 1"
      using p w by (simp only: mult_less_cancel_left_pos)
    then have lt: "of_int width * pct \<le> of_int width" by simp
    have nn: "0 \<le> of_int width * pct" using p w by simp
    have "rnd (of_int width * pct) \<le> rnd (of_int width)" by (rule rnd_mono[OF nn lt])
    then have le': "fmul (of_int width) pct \<le> of_int width" by (simp add: fmul_def assms(2))
    have le: "Math_round (fmul (of_int width) pct) \<le> width" by (rule Math_round_le[OF le'])
    have "0 \<le> fmul (of_int width) pct" unfolding fmul_def by (rule rnd_nonneg[OF nn])
    then have ge: "0 \<le> Math_round (fmul (of_int width) pct)" by (rule Math_round_nonneg)
    have "filled = min (Math_round (fmul (of_int width) pct)) width"
      using p by (simp add: assms(4) filledLen_def)
    with le ge show ?thesis by simp
  qed
  have bounds: "0 \<le> filled \<and> filled \<le> width"
  proof (cases "0 < pct \<and> pct < 1")
    case True
    with mid show ?thesis by simp
  next
    case False
    then have "pct \<le> 0 \<or> 1 \<le> pct" by auto
    then show ?thesis using assms(1) by (auto simp: assms(4) filledLen_def)
  qed
  have bw: "1 \<le> barWidth env" using barWidth_range[of env] by simp
  show ?thesis using rng zero f0 f1 mid bounds bw barWidth_exact[of env] by blast
qed

text \<open>
  At 84000 of 120000 ms on a bar of 45 cells the quotient rounds below \<open>7/10\<close> and the product
  below \<open>31.5\<close>: 31 cells are filled.
\<close>

theorem progress_bar_filled_witness:
  "(1::int) \<le> 45 \<and> rnd (of_int 45) = of_int 45 \<and>
   percent 84000 120000 = 3152519739159347 / 4503599627370496 \<and>
   filledLen 45 (percent 84000 120000) = 31 \<and>
   percent 0 200000 = 0 \<and> filledLen 45 (percent 0 200000) = 0 \<and>
   percent 250000 200000 = 1 \<and> filledLen 45 (percent 250000 200000) = 45 \<and>
   (0::real) \<le> 0 \<and> percent 5000 0 = 0 \<and> filledLen 45 (percent 5000 0) = 0"
proof -
  have w: "(1::int) \<le> 45" by simp
  have x: "rnd (of_int 45) = of_int 45" by (rule rnd_of_int) simp
  note part = progress_bar_filled [OF w x refl refl, of 84000 120000 exampleEnv]
  note none = progress_bar_filled [OF w x refl refl, of 0 200000 exampleEnv]
  note full = progress_bar_filled [OF w x refl refl, of 250000 200000 exampleEnv]
  note nodur = progress_bar_filled [OF w x refl refl, of 5000 0 exampleEnv]
  have q: "fdiv 84000 120000 = 3152519739159347 / 4503599627370496"
    by (simp add: fdiv_def rnd_eval[of _ "- 1"] pow2_def rne_def Let_def)
  have p1: "percent 84000 120000 = 3152519739159347 / 4503599627370496"
    by (simp add: percent_def q)
  have p2: "percent 0 200000 = 0" by (simp add: percent_def fdiv_def rnd_def)
  have q3: "fdiv 250000 200000 = 5 / 4"
    by (simp add: fdiv_def rnd_eval[of _ 0] pow2_def rne_def Let_def)
  have p3: "percent 250000 200000 = 1" by (simp add: percent_def q3)
  have p4: "percent 5000 0 = 0" by (simp add: percent_def)
  have m: "fmul 45 (3152519739159347 / 4503599627370496) = 8866461766385663 / 281474976710656"
    by (simp add: fmul_def rnd_eval[of _ 4] pow2_def rne_def Let_def)
  have r: "Math_round (8866461766385663 / 281474976710656) = 31" by (simp add: Math_round_def)
  show ?thesis using part none full nodur x by (simp add: p1 p2 p3 p4 m r)
qed

subsection \<open>The playback position\<close>

text \<open>
  Claim C9, as stated: for any \<open>progress_ms\<close>, \<open>duration_ms\<close>, \<open>timestamp\<close> and play
  state, \<open>0 \<le> currentMs \<le> duration_ms\<close>. The position is only bounded above, by
  \<open>Math.min\<close>: for a playing track whose \<open>timestamp\<close> is one second ahead of the clock and
  whose \<open>progress_ms\<close> is 0, \<open>currentMs\<close> is \<open>-1000\<close>.
\<close>

theorem currentMs_negative_counterexample:
  "currentMs 5000
     \<lparr>CurrentTrack.track_name = js ''Asibe Happy'', CurrentTrack.artist = js ''Kabza De Small'',
      CurrentTrack.camelot_key = Some (js ''9A''), progress_ms = 0, duration_ms = 325000,
      timestamp = 6000, isPlaying = True,
      audio_features = \<lparr>tempo = 113, time_signature = Some 4\<rparr>\<rparr> = - 1000 \<and>
   \<not> (0::real) \<le> - 1000"
  by (simp add: currentMs_def)

text \<open>
  Claim C9, amended: for every current track, \<open>currentMs \<le> duration_ms\<close>; \<open>0 \<le> currentMs\<close>
  holds whenever \<open>duration_ms \<ge> 0\<close> and \<open>progress_ms\<close> plus the elapsed time counted is not
  negative; the wall-clock time elapsed since \<open>timestamp\<close> is added to \<open>progress_ms\<close> only
  while the track is playing; and the fraction of the bar computed from \<open>currentMs\<close> always
  lies in \<open>[0, 1]\<close>.
\<close>

theorem currentMs_bounds:
  "currentMs now t \<le> duration_ms t \<and>
   (0 \<le> duration_ms t \<and> 0 \<le> progress_ms t + (if isPlaying t then now - timestamp t else 0)
      \<longrightarrow> 0 \<le> currentMs now t) \<and>
   (isPlaying t \<longrightarrow> currentMs now t = min (progress_ms t + (now - timestamp t)) (duration_ms t)) \<and>
   (\<not> isPlaying t \<longrightarrow> currentMs now t = min (progress_ms t) (duration_ms t)) \<and>
   0 \<le> percent (currentMs now t) (duration_ms t) \<and>
   percent (currentMs now t) (duration_ms t) \<le> 1"
  using percent_range[of "currentMs now t" "duration_ms t"]
  by (simp add: currentMs_def Let_def)

theorem currentMs_bounds_witness:
  "currentMs 5000
     \<lparr>CurrentTrack.track_name = js ''Asibe Happy'', CurrentTrack.artist = js ''Kabza De Small'',
      CurrentTrack.camelot_key = Some (js ''9A''), progress_ms = 142000, duration_ms = 325000,
      timestamp = 4000, isPlaying = True,
      audio_features = \<lparr>tempo = 113, time_signature = Some 4\<rparr>\<rparr> = 143000 \<and>
   (0::real) \<le> 143000 \<and> (143000::real) \<le> 325000 \<and>
   currentMs 5000
     \<lparr>CurrentTrack.track_name = js ''Asibe Happy'', CurrentTrack.artist = js ''Kabza De Small'',
      CurrentTrack.camelot_key = Some (js ''9A''), progress_ms = 142000, duration_ms = 325000,
      timestamp = 4000, isPlaying = False,
      audio_features = \<lparr>tempo = 113, time_signature = Some 4\<rparr>\<rparr> = 142000"
  using currentMs_bounds [of 5000
     "\<lparr>CurrentTrack.track_name = js ''Asibe Happy'', CurrentTrack.artist = js ''Kabza De Small'',
      CurrentTrack.camelot_key = Some (js ''9A''), progress_ms = 142000, duration_ms = 325000,
      timestamp = 4000, isPlaying = True,
      audio_features = \<lparr>tempo = 113, time_signature = Some 4\<rparr>\<rparr>"]
    currentMs_bounds [of 5000
     "\<lparr>CurrentTrack.track_name = js ''Asibe Happy'', CurrentTrack.artist = js ''Kabza De Small'',
      CurrentTrack.camelot_key = Some (js ''9A''), progress_ms = 142000, duration_ms = 325000,
      timestamp = 4000, isPlaying = False,
      audio_features = \<lparr>tempo = 113, time_signature = Some 4\<rparr>\<rparr>"]
  by simp

subsection \<open>Scrolling\<close>

lemma padLines_eq:
  "padLines limit ls = ls @ replicate (nat (limit - int (length ls))) []"
proof (induction limit ls rule: padLines.induct)
  case (1 limit ls)
  show ?case
  proof (cases "int (length ls) < limit")
    case True
    have n: "nat (limit - int (length ls)) = Suc (nat (limit - int (length (ls @ [[]]))))"
      using True by simp
    have "padLines limit ls = padLines limit (ls @ [[]])"
      using True by (subst padLines.simps) simp
    also have "\<dots> = (ls @ [[]]) @ replicate (nat (limit - int (length (ls @ [[]])))) []"
      by (rule "1.IH"[OF True])
    also have "\<dots> = ls @ replicate (nat (limit - int (length ls))) []"
      unfolding n by simp
    finally show ?thesis .
  next
    case False
    then show ?thesis by (subst padLines.simps) simp
  qed
qed

lemma js_slice_window:
  assumes "0 \<le> a" and "a \<le> int (length xs)" and "0 \<le> n"
  shows "js_slice xs a (a + n) = take (nat n) (drop (nat a) xs)"
proof -
  have "take (nat (min (a + n) (int (length xs)) - a)) (drop (nat a) xs)
          = take (nat n) (drop (nat a) xs)"
  proof (cases "a + n \<le> int (length xs)")
    case True
    then show ?thesis by (simp add: min_def)
  next
    case False
    then have m: "min (a + n) (int (length xs)) = int (length xs)" by simp
    have l: "length (drop (nat a) xs) = nat (int (length xs) - a)" using assms by simp
    have "take (nat (int (length xs) - a)) (drop (nat a) xs) = drop (nat a) xs"
      using l by simp
    moreover have "take (nat n) (drop (nat a) xs) = drop (nat a) xs"
      using l False by simp
    ultimately show ?thesis by (simp add: m)
  qed
  then show ?thesis using assms by (simp add: js_slice_def Let_def min_def)
qed

lemma reservedLines_lower: "3 \<le> reservedLines env showExitWarning showHelp logs"
  by (simp add: reservedLines_def statusLineCount_def Let_def)

lemma availableForRecs_nonneg: "0 \<le> availableForRecs env used showExitWarning showHelp logs"
  by (simp add: availableForRecs_def)

lemma availableForRecs_fits:
  assumes "0 < availableForRecs env used showExitWarning showHelp logs"
  shows "used + availableForRecs env used showExitWarning showHelp logs < terminalHeight env"
  using assms reservedLines_lower[of env showExitWarning showHelp logs]
  by (simp add: availableForRecs_def)

text \<open>
  The frame that \<open>trainBoardLayout\<close> builds, row for row: the top rows, the visible slice of
  the recommendation rows, the debug log, the help panel, empty rows up to the status bar,
  and the status bar. The notice for a window of no rows is never pushed: when the list
  is no longer than the window the whole list is visible.
\<close>

lemma trainBoardLayout_eq:
  assumes "topRows = topLines env currentTrack phraseInfo selectedCategory notices"
    and "recRows = displayLines env currentTrack recommendations selectedCategory debugMessage
           totalTracksInLibrary"
    and "window = availableForRecs env (int (length topRows)) showExitWarning showHelp logs"
    and "off = min (max scrollOffset 0) (max 0 (int (length recRows) - window))"
    and "visible = take (nat window) (drop (nat off) recRows)"
    and "body = topRows @ visible @ logLines env logs
                  @ (if showHelp then [] # helpLines env showHelp else [])"
    and "statusRow = terminalHeight env - statusLineCount showExitWarning"
  shows "trainBoardLayout env currentTrack recommendations phraseInfo showExitWarning
           debugMessage logs selectedCategory scrollOffset showHelp notices totalTracksInLibrary
         = (body @ replicate (nat (statusRow - int (length body))) []
              @ buildStatusBar env (terminalWidth env) showExitWarning
                  (boardRipple env currentTrack) (max statusRow (int (length body))),
            \<lparr>clampedOffset = off, maxScroll = max 0 (int (length recRows) - window)\<rparr>)"
proof -
  have w0: "0 \<le> window" unfolding assms(3) by (rule availableForRecs_nonneg)
  have off0: "0 \<le> off" by (simp add: assms(4))
  have offle: "off \<le> int (length recRows)"
    using w0 by (simp add: assms(4) min_def max_def)
  have vis: "js_slice recRows off (off + window) = visible"
    unfolding assms(5) by (rule js_slice_window[OF off0 offle w0])
  have o1: "(if (if scrollOffset < 0 then 0 else scrollOffset) > max 0 (int (length recRows) - window)
             then max 0 (int (length recRows) - window)
             else (if scrollOffset < 0 then 0 else scrollOffset)) = off"
    by (simp add: assms(4) min_def max_def)
  have dead: "\<not> (\<not> int (length recRows) > window \<and> length visible = 0 \<and> int (length recRows) > 0)"
  proof
    assume a: "\<not> int (length recRows) > window \<and> length visible = 0 \<and> int (length recRows) > 0"
    then have le: "int (length recRows) \<le> window" by simp
    then have "off = 0" using off0 by (simp add: assms(4) min_def max_def)
    moreover have "length recRows \<le> nat window" using le by simp
    ultimately have "visible = recRows" by (simp add: assms(5))
    with a show False by simp
  qed
  have l2: "(if int (length recRows) > window then topRows @ visible
             else if length visible = 0 \<and> int (length recRows) > 0 then
               (topRows @ visible) @ [colors_dim @ js '' (Terminal too small to show tracks) ''
                                 @ colors_reset]
             else topRows @ visible) = topRows @ visible"
    using dead by auto
  have l3: "(if length (logLines env logs) > 0 then (topRows @ visible) @ logLines env logs
             else topRows @ visible) = topRows @ visible @ logLines env logs"
    by simp
  have l4: "(if showHelp then (topRows @ visible @ logLines env logs) @ [[]] @ helpLines env showHelp
             else topRows @ visible @ logLines env logs) = body"
    by (simp add: assms(6))
  show ?thesis
    unfolding trainBoardLayout_def Let_def
      assms(1)[symmetric] assms(2)[symmetric] assms(3)[symmetric] o1 vis l2 l3 l4
      padLines_eq assms(7)[symmetric]
    by simp
qed


lemma length_headerLines: "length (headerLines env currentTrack) = 5"
  by (simp add: headerLines_def Let_def)

lemma length_tabLines: "length (tabLines env currentTrack selectedCategory) = 3"
  by (simp add: tabLines_def Let_def)

lemma writeFrame_stored: "previousFrame (fst (writeFrame rows r lines)) = take (orDefault rows 24) lines"
  by (simp add: writeFrame_def Let_def)

text \<open>
  Claim C7: for every \<open>scrollOffset\<close> (negative and over-large ones too), every
  recommendation list and every terminal geometry, \<open>renderTrainBoard\<close> returns
  \<open>maxScroll = max (0, totalFilteredRows - visibleWindow)\<close> and the offset clamped to
  \<open>[0, maxScroll]\<close>. The frame it hands to \<open>writeFrame\<close> is, row for row, the fixed top
  rows, then exactly the slice \<open>rows[clampedOffset : clampedOffset + visibleWindow]\<close> of the
  recommendation rows, then the debug log, the help panel, the padding and the status bar:
  no other recommendation row is in it. A slice that is not empty ends above the last
  terminal row, so it is stored (and written) unclipped.
\<close>

theorem renderTrainBoard_scroll:
  assumes "topRows = topLines env currentTrack phraseInfo selectedCategory notices"
    and "recRows = displayLines env currentTrack recommendations selectedCategory debugMessage
           totalTracksInLibrary"
    and "window = availableForRecs env (int (length topRows)) showExitWarning showHelp logs"
    and "res = renderTrainBoard env renderer currentTrack recommendations phraseInfo
           showExitWarning debugMessage logs selectedCategory scrollOffset showHelp notices
           totalTracksInLibrary"
    and "scroll = snd (snd res)"
    and "visible = take (nat window) (drop (nat (clampedOffset scroll)) recRows)"
    and "body = topRows @ visible @ logLines env logs
                  @ (if showHelp then [] # helpLines env showHelp else [])"
    and "statusRow = terminalHeight env - statusLineCount showExitWarning"
    and "frame = body @ replicate (nat (statusRow - int (length body))) []
                   @ buildStatusBar env (terminalWidth env) showExitWarning
                       (boardRipple env currentTrack) (max statusRow (int (length body)))"
  shows "maxScroll scroll = max 0 (int (length recRows) - window) \<and>
         clampedOffset scroll = min (max scrollOffset 0) (maxScroll scroll) \<and>
         0 \<le> clampedOffset scroll \<and> clampedOffset scroll \<le> maxScroll scroll \<and>
         0 \<le> window \<and>
         (fst res, fst (snd res)) = writeFrame (stdoutRows env) renderer frame \<and>
         (visible \<noteq> [] \<longrightarrow>
            int (length (topRows @ visible)) < terminalHeight env \<and>
            take (length (topRows @ visible)) (previousFrame (fst res)) = topRows @ visible)"
proof -
  define off where "off = min (max scrollOffset 0) (max 0 (int (length recRows) - window))"
  define vis where "vis = take (nat window) (drop (nat off) recRows)"
  define bod where "bod = topRows @ vis @ logLines env logs
                  @ (if showHelp then [] # helpLines env showHelp else [])"
  note lay = trainBoardLayout_eq[OF assms(1) assms(2) assms(3) off_def vis_def bod_def assms(8)]
  have res: "res = (fst (writeFrame (stdoutRows env) renderer
                      (bod @ replicate (nat (statusRow - int (length bod))) []
                         @ buildStatusBar env (terminalWidth env) showExitWarning
                             (boardRipple env currentTrack) (max statusRow (int (length bod))))),
                    snd (writeFrame (stdoutRows env) renderer
                      (bod @ replicate (nat (statusRow - int (length bod))) []
                         @ buildStatusBar env (terminalWidth env) showExitWarning
                             (boardRipple env currentTrack) (max statusRow (int (length bod))))),
                    \<lparr>clampedOffset = off, maxScroll = max 0 (int (length recRows) - window)\<rparr>)"
    unfolding assms(4) renderTrainBoard_def lay by (simp add: case_prod_beta)
  have scroll: "scroll = \<lparr>clampedOffset = off, maxScroll = max 0 (int (length recRows) - window)\<rparr>"
    by (simp add: assms(5) res)
  have v: "visible = vis" by (simp add: assms(6) vis_def scroll)
  have b: "body = bod" by (simp add: assms(7) bod_def v)
  have fr: "frame = bod @ replicate (nat (statusRow - int (length bod))) []
                         @ buildStatusBar env (terminalWidth env) showExitWarning
                             (boardRipple env currentTrack) (max statusRow (int (length bod)))"
    by (simp add: assms(9) b)
  have w0: "0 \<le> window" unfolding assms(3) by (rule availableForRecs_nonneg)
  have off0: "0 \<le> off" by (simp add: off_def)
  have wr: "(fst res, fst (snd res)) = writeFrame (stdoutRows env) renderer frame"
    by (simp add: res fr)
  have fit: "int (length (topRows @ visible)) < terminalHeight env \<and>
             take (length (topRows @ visible)) (previousFrame (fst res)) = topRows @ visible"
    if ne: "visible \<noteq> []"
  proof -
    have "0 < nat window" using ne unfolding assms(6) by (cases "nat window") auto
    then have wpos: "0 < window" by simp
    have "length visible \<le> nat window" unfolding assms(6) by simp
    then have "int (length visible) \<le> window" using w0 by linarith
    moreover have "int (length topRows) + window < terminalHeight env"
      using availableForRecs_fits[of env "int (length topRows)" showExitWarning showHelp logs] wpos
      by (simp add: assms(3))
    ultimately have lt: "int (length (topRows @ visible)) < terminalHeight env" by simp
    then have le: "length (topRows @ visible) \<le> orDefault (stdoutRows env) 24"
      by (simp add: terminalHeight_def)
    have st: "previousFrame (fst res) = take (orDefault (stdoutRows env) 24) frame"
      using wr writeFrame_stored[of "stdoutRows env" renderer frame] by (metis fst_conv)
    obtain rest where rest: "frame = (topRows @ visible) @ rest"
      by (simp add: assms(9) assms(7))
    have "take (length (topRows @ visible)) (take (orDefault (stdoutRows env) 24) frame)
            = take (length (topRows @ visible)) frame"
      using le by (simp add: min_def)
    also have "\<dots> = topRows @ visible" unfolding rest by simp
    finally show ?thesis using lt st by simp
  qed
  show ?thesis
    using w0 off0 wr fit by (auto simp: scroll off_def)
qed

lemma topLines_idle: "length (topLines env None None selectedCategory []) = 9"
  by (simp add: topLines_def length_headerLines length_tabLines noticeLines_def trackLines_def)

lemma displayLines_sample:
  "displayLines exampleEnv16 None sampleRecommendations AllTypes None 4 =
     [typeColor SMOOTH @ glyph_triangleDown @ js '' '' @ shiftTypeValue SMOOTH @ colors_reset,
      trackRow exampleEnv16 None (sampleRecommendations ! 3),
      typeColor MOOD_SWITCH @ glyph_triangleDown @ js '' '' @ shiftTypeValue MOOD_SWITCH
        @ colors_reset,
      trackRow exampleEnv16 None (sampleRecommendations ! 1),
      typeColor ENERGY_UP @ glyph_triangleDown @ js '' '' @ shiftTypeValue ENERGY_UP
        @ colors_reset,
      trackRow exampleEnv16 None (sampleRecommendations ! 0),
      trackRow exampleEnv16 None (sampleRecommendations ! 2)]"
  by (simp add: displayLines_def groupTracks_def sampleRecommendations_def ShiftType_values_def
        Let_def)

lemma availableForRecs_sample: "availableForRecs exampleEnv16 9 False False [] = 2"
  by (simp add: availableForRecs_def reservedLines_def statusLineCount_def terminalHeight_def
        exampleEnv16_def exampleEnv_def orDefault_def Let_def)

text \<open>
  Four recommendations in the \<open>ALL\<close> view give seven rows (three headers); on a terminal
  of 16 rows the window is 2. An offset of 9 is clamped to 5 and the last two rows are shown.
\<close>

theorem renderTrainBoard_scroll_witness:
  "clampedOffset (snd (snd (renderTrainBoard exampleEnv16 newTerminalRenderer None
      sampleRecommendations None False None [] AllTypes 9 False [] 4))) = 5 \<and>
   maxScroll (snd (snd (renderTrainBoard exampleEnv16 newTerminalRenderer None
      sampleRecommendations None False None [] AllTypes 9 False [] 4))) = 5 \<and>
   length (displayLines exampleEnv16 None sampleRecommendations AllTypes None 4) = 7 \<and>
   availableForRecs exampleEnv16 9 False False [] = 2 \<and>
   [trackRow exampleEnv16 None (sampleRecommendations ! 0),
    trackRow exampleEnv16 None (sampleRecommendations ! 2)] \<noteq> [] \<and>
   take 11 (previousFrame (fst (renderTrainBoard exampleEnv16 newTerminalRenderer None
      sampleRecommendations None False None [] AllTypes 9 False [] 4))) =
     topLines exampleEnv16 None None AllTypes [] @
     [trackRow exampleEnv16 None (sampleRecommendations ! 0),
      trackRow exampleEnv16 None (sampleRecommendations ! 2)]"
proof -
  note t = renderTrainBoard_scroll [where env = exampleEnv16 and renderer = newTerminalRenderer
      and currentTrack = None and recommendations = sampleRecommendations and phraseInfo = None
      and showExitWarning = False and debugMessage = None and logs = "[]"
      and selectedCategory = AllTypes and scrollOffset = 9 and showHelp = False
      and notices = "[]" and totalTracksInLibrary = 4,
      OF refl refl refl refl refl refl refl refl refl]
  have len: "length (displayLines exampleEnv16 None sampleRecommendations AllTypes None 4) = 7"
    by (simp add: displayLines_sample)
  have m: "maxScroll (snd (snd (renderTrainBoard exampleEnv16 newTerminalRenderer None
      sampleRecommendations None False None [] AllTypes 9 False [] 4))) = 5"
    unfolding conjunct1[OF t] by (simp add: len topLines_idle availableForRecs_sample)
  have c: "clampedOffset (snd (snd (renderTrainBoard exampleEnv16 newTerminalRenderer None
      sampleRecommendations None False None [] AllTypes 9 False [] 4))) = 5"
    unfolding conjunct1[OF conjunct2[OF t]] by (simp add: m)
  have v: "take (nat (availableForRecs exampleEnv16
                  (int (length (topLines exampleEnv16 None None AllTypes []))) False False []))
             (drop (nat (clampedOffset (snd (snd (renderTrainBoard exampleEnv16
                newTerminalRenderer None sampleRecommendations None False None [] AllTypes 9
                False [] 4)))))
                (displayLines exampleEnv16 None sampleRecommendations AllTypes None 4))
           = [trackRow exampleEnv16 None (sampleRecommendations ! 0),
              trackRow exampleEnv16 None (sampleRecommendations ! 2)]"
    by (simp add: c topLines_idle availableForRecs_sample displayLines_sample)
  note fit = conjunct2[OF conjunct2[OF conjunct2[OF conjunct2[OF conjunct2[OF conjunct2[OF t]]]]]]
  have p: "take 11 (previousFrame (fst (renderTrainBoard exampleEnv16 newTerminalRenderer None
      sampleRecommendations None False None [] AllTypes 9 False [] 4))) =
     topLines exampleEnv16 None None AllTypes [] @
     [trackRow exampleEnv16 None (sampleRecommendations ! 0),
      trackRow exampleEnv16 None (sampleRecommendations ! 2)]"
    using fit unfolding v by (simp add: topLines_idle)
  show ?thesis by (simp add: m c len availableForRecs_sample p)
qed

text \<open>
  Two calls of \<open>renderTrainBoard\<close> with the same arguments, environment and clock: the
  second one writes the cursor-home sequence and nothing else.
\<close>

lemma renderTrainBoard_repeat:
  assumes "first = renderTrainBoard env renderer currentTrack recommendations phraseInfo
             showExitWarning debugMessage logs selectedCategory scrollOffset showHelp notices
             totalTracksInLibrary"
  shows "fst (snd (renderTrainBoard env (fst first) currentTrack recommendations phraseInfo
             showExitWarning debugMessage logs selectedCategory scrollOffset showHelp notices
             totalTracksInLibrary)) = [cursorHome]"
  using writeFrame_repeat[of "stdoutRows env" renderer]
  by (simp add: assms renderTrainBoard_def case_prod_beta)

end
